theory Spec2Isabelle
  imports Main
begin

text \<open>
  The RFQ client of the Arkiv RFQ SDK, embedded from its TypeScript source: the
  validators (utils/validation.ts), the error classes (errors/index.ts), the retry
  executor (utils/retry.ts), the client with its lifecycle operations, query translation
  and change feed (client/ArkivRFQClient.ts), and the test doubles of the suite. The
  definitions come first; the properties follow from the section on amounts onwards.
\<close>

section \<open>Strings\<close>

text \<open>
  JavaScript strings are modelled as \<open>string\<close> (a list of 8-bit characters). Every string
  the client inspects (addresses, amounts, identifiers, error messages) is ASCII in
  practice; on ASCII the functions below agree with \<open>String.prototype.toLowerCase\<close>,
  \<open>includes\<close>, \<open>trim\<close> and the regular expressions of the validators.
\<close>

definition isUpper :: "char \<Rightarrow> bool" where
  "isUpper c = (65 \<le> (of_char c :: nat) \<and> (of_char c :: nat) \<le> 90)"

definition lowerChar :: "char \<Rightarrow> char" where
  "lowerChar c = (if isUpper c then char_of ((of_char c :: nat) + 32) else c)"

definition toLowerCase :: "string \<Rightarrow> string" where
  "toLowerCase s = map lowerChar s"

definition isDigit :: "char \<Rightarrow> bool" where
  "isDigit c = (48 \<le> (of_char c :: nat) \<and> (of_char c :: nat) \<le> 57)"

definition isHexDigit :: "char \<Rightarrow> bool" where
  "isHexDigit c =
     (let n = (of_char c :: nat)
      in (48 \<le> n \<and> n \<le> 57) \<or> (65 \<le> n \<and> n \<le> 70) \<or> (97 \<le> n \<and> n \<le> 102))"

definition isSpace :: "char \<Rightarrow> bool" where
  "isSpace c = (let n = (of_char c :: nat) in (9 \<le> n \<and> n \<le> 13) \<or> n = 32)"

definition trim :: "string \<Rightarrow> string" where
  "trim s = rev (dropWhile isSpace (rev (dropWhile isSpace s)))"

fun startsWith :: "string \<Rightarrow> string \<Rightarrow> bool" where
  "startsWith s [] = True"
| "startsWith [] (p # ps) = False"
| "startsWith (c # cs) (p # ps) = (c = p \<and> startsWith cs ps)"

fun includes_str :: "string \<Rightarrow> string \<Rightarrow> bool" where
  "includes_str [] sub = (sub = [])"
| "includes_str (c # cs) sub = (startsWith (c # cs) sub \<or> includes_str cs sub)"

text \<open>Decimal rendering of a non-negative number, as template literals print it.\<close>

definition digitChar :: "nat \<Rightarrow> char" where
  "digitChar d = char_of (48 + d)"

fun numberToString :: "nat \<Rightarrow> string" where
  "numberToString n =
     (if n < 10 then [digitChar n] else numberToString (n div 10) @ [digitChar (n mod 10)])"

declare numberToString.simps [simp del]

text \<open>The integer a digit string denotes (\<open>BigInt(s)\<close> on a string of decimal digits).\<close>

definition digitValue :: "char \<Rightarrow> nat" where
  "digitValue c = (of_char c :: nat) - 48"

definition amountValue :: "string \<Rightarrow> nat" where
  "amountValue s = foldl (\<lambda>acc c. 10 * acc + digitValue c) 0 s"

section \<open>Errors (errors/index.ts)\<close>

text \<open>
  A thrown value is an \<open>Error\<close> object with its \<open>name\<close>, its \<open>message\<close> and the
  optional \<open>originalError\<close> it wraps, or some value that is not an \<open>Error\<close> at all
  (a promise may reject with anything). A subclass is identified by the name its
  constructor sets.
\<close>

datatype thrown =
    Error (name_of: string) (message_of: string) (originalError: "thrown option")
  | NonError string

definition ArkivNetworkError :: "string \<Rightarrow> thrown option \<Rightarrow> thrown" where
  "ArkivNetworkError msg orig = Error ''ArkivNetworkError'' (''Network error: '' @ msg) orig"

definition SignatureError :: "string \<Rightarrow> thrown option \<Rightarrow> thrown" where
  "SignatureError msg orig = Error ''SignatureError'' (''Signature error: '' @ msg) orig"

definition ValidationError :: "string \<Rightarrow> thrown" where
  "ValidationError msg = Error ''ValidationError'' (''Validation error: '' @ msg) None"

definition OwnershipError :: "string \<Rightarrow> thrown" where
  "OwnershipError msg = Error ''OwnershipError'' (''Ownership error: '' @ msg) None"

definition RFQNotFoundError :: "string \<Rightarrow> thrown" where
  "RFQNotFoundError i = Error ''RFQNotFoundError'' (''RFQ not found with id: '' @ i) None"

fun isError :: "thrown \<Rightarrow> string \<Rightarrow> bool" where
  "isError (Error n m orig) cls = (n = cls)"
| "isError (NonError v) cls = False"

section \<open>Validation (utils/validation.ts)\<close>

text \<open>
  Each validator returns normally (\<open>Inr ()\<close>) or throws a \<open>ValidationError\<close> (\<open>Inl\<close>).
  The \<open>typeof\<close> tests of the source cannot fail on typed input; the falsy test
  \<open>!amount\<close> on a string is the test for the empty string. \<open>/^\d+$/\<close> accepts exactly
  the non-empty strings of ASCII digits, \<open>/^0x[a-fA-F0-9]{40}$/\<close> exactly \<open>0x\<close> followed
  by forty hexadecimal digits.
\<close>

definition validateAddress :: "string \<Rightarrow> string \<Rightarrow> thrown + unit" where
  "validateAddress address fieldName =
     (if address = [] then
        Inl (ValidationError (fieldName @ '' is required and must be a string''))
      else if \<not> (startsWith address ''0x'' \<and> length address = 42
                 \<and> list_all isHexDigit (drop 2 address)) then
        Inl (ValidationError (fieldName @ '' must be a valid Ethereum address''))
      else Inr ())"

definition validateAmount :: "string \<Rightarrow> string \<Rightarrow> thrown + unit" where
  "validateAmount amount fieldName =
     (if amount = [] then
        Inl (ValidationError (fieldName @ '' is required and must be a string''))
      else if \<not> (amount \<noteq> [] \<and> list_all isDigit amount) then
        Inl (ValidationError (fieldName @ '' must be a valid positive integer string''))
      else if amount = ''0'' then
        Inl (ValidationError (fieldName @ '' must be greater than zero''))
      else Inr ())"

definition validateRFQId :: "string \<Rightarrow> thrown + unit" where
  "validateRFQId i =
     (if i = [] then Inl (ValidationError ''RFQ ID is required and must be a string'')
      else if length (trim i) = 0 then Inl (ValidationError ''RFQ ID cannot be empty'')
      else Inr ())"


section \<open>The world the client runs in\<close>

text \<open>
  The client is asynchronous code over three pieces of outside state: the wall clock
  (\<open>Date.now()\<close>, in milliseconds), the entity store behind \<open>ArkivPublicClient\<close>, and
  the wallet. The model threads a world record through every operation. \<open>calls\<close> is a
  ghost log of the store calls the client has attempted, in order; it exists only so
  that properties such as "before any store call" can be stated.
\<close>

datatype RFQStatus = OPEN | FILLED | CANCELLED

record TokenInfo =
  address :: string
  chainId :: int

text \<open>
  Objects at run time. \<open>data: Record<string, any>\<close>, the RFQ objects the client builds
  and the \<open>updates\<close> argument are plain JavaScript objects: whatever the TypeScript
  interfaces say, the code copies and reads their properties as they are. An object is
  the list of its own properties in insertion order; a value is \<open>undefined\<close>, a string,
  a number (integers only here), an object or an array (\<open>null\<close> and booleans do not
  occur in the code modelled). Property names that are array indices, which JavaScript
  lists first, are not treated specially: nothing here depends on the order.
\<close>

datatype JsValue =
    JUndefined
  | JString string
  | JNumber int
  | JObject "(string \<times> JsValue) list"
  | JArray "JsValue list"

type_synonym JsObject = "(string \<times> JsValue) list"

text \<open>\<open>o[k]\<close>: the property's value, \<open>undefined\<close> if \<open>o\<close> has no such property.\<close>

fun getProp :: "JsObject \<Rightarrow> string \<Rightarrow> JsValue" where
  "getProp [] k = JUndefined"
| "getProp ((k', v) # ps) k = (if k' = k then v else getProp ps k)"

text \<open>\<open>Object.hasOwn(o, k)\<close>: \<open>o\<close> has a property named \<open>k\<close> (whatever its value).\<close>

definition hasOwn :: "JsObject \<Rightarrow> string \<Rightarrow> bool" where
  "hasOwn obj k = (k \<in> set (map fst obj))"

text \<open>\<open>o[k] = v\<close>: an existing property keeps its place, a new one goes last.\<close>

fun setProp :: "string \<Rightarrow> JsValue \<Rightarrow> JsObject \<Rightarrow> JsObject" where
  "setProp k v [] = [(k, v)]"
| "setProp k v ((k', v') # ps) = (if k' = k then (k, v) # ps else (k', v') # setProp k v ps)"

text \<open>
  The spread \<open>...src\<close> inside an object literal: every own property of \<open>src\<close>, in
  order, is set on the object under construction, whatever its name and whatever its
  value (\<open>undefined\<close> included).
\<close>

definition assign :: "JsObject \<Rightarrow> JsObject \<Rightarrow> JsObject" where
  "assign target src = foldl (\<lambda>obj (k, v). setProp k v obj) target src"

text \<open>
  An \<open>RFQ\<close> is the object with the fourteen properties of the interface. An
  \<open>UpdateRFQInput\<close> is any object: the interface makes its six properties optional, so
  an object with none, with some set to \<open>undefined\<close>, or with further properties of its
  own is assignable to it.
\<close>

type_synonym RFQ = JsObject

type_synonym UpdateRFQInput = JsObject

text \<open>The property names of the interfaces \<open>RFQ\<close> and \<open>UpdateRFQInput\<close> (types/RFQ.ts).\<close>

definition rfqKeys :: "string list" where
  "rfqKeys =
     [''id'', ''creator'', ''baseToken'', ''quoteToken'', ''baseAmount'', ''quoteAmount'',
      ''expiresIn'', ''status'', ''createdAt'', ''updatedAt'', ''filledAmount'', ''fills'',
      ''minFillAmount'', ''counterpartyRestrictions'']"

definition updateKeys :: "string list" where
  "updateKeys =
     [''baseAmount'', ''quoteAmount'', ''expiresIn'', ''status'', ''filledAmount'', ''fills'']"

text \<open>
  The create input is validated property by property before it is used, so it is kept
  typed; an optional property (\<open>field?: T\<close>) is an option, \<open>None\<close> when \<open>undefined\<close>.
\<close>

record CreateRFQInput =
  in_baseToken :: TokenInfo
  in_quoteToken :: TokenInfo
  in_baseAmount :: string
  in_quoteAmount :: string
  in_expiresIn :: int
  in_minFillAmount :: "string option"
  in_counterpartyRestrictions :: "string list option"

text \<open>types/arkiv.ts.\<close>

record ArkivEntity =
  entityKey :: string
  data :: JsObject
  timestamp :: nat

record WriteEntityOptions =
  w_entityType :: string
  w_entityKey :: string
  w_data :: JsObject
  w_signature :: "string option"

text \<open>
  Store-level filters (\<open>Record<string, any>\<close>): an object is the list of its properties
  in insertion order. A value is a string, a number, a range object
  \<open>{$gte, $lte}\<close> or, under the key \<open>$or\<close>, an array of filter objects.
\<close>

datatype FilterValue =
    FString string
  | FNumber int
  | FRange int int
  | FOr "(string \<times> FilterValue) list list"

type_synonym ArkivFilters = "(string \<times> FilterValue) list"

datatype SortOrder = asc | desc

record QueryOptions =
  q_entityType :: string
  q_filters :: "ArkivFilters option"
  q_sort :: "(string \<times> SortOrder) option"
  q_limit :: "nat option"
  q_cursor :: "string option"

record QueryResponse =
  entities :: "ArkivEntity list"
  total :: nat
  nextCursor :: "string option"

datatype StoreCall =
    WriteCall WriteEntityOptions
  | GetCall string string
  | DeleteCall string string
  | QueryCall QueryOptions

record 's world =
  clock :: nat
  calls :: "StoreCall list"
  store :: 's

text \<open>
  An asynchronous operation: it takes the world, and returns the value it resolves to
  (\<open>Inr\<close>) or the value it rejects with (\<open>Inl\<close>), and the world it leaves behind.
\<close>

type_synonym ('s, 'a) op = "'s world \<Rightarrow> (thrown + 'a) \<times> 's world"

definition throw :: "thrown \<Rightarrow> ('s, 'a) op" where
  "throw e w = (Inl e, w)"

definition sleep :: "nat \<Rightarrow> 's world \<Rightarrow> 's world" where
  "sleep ms w = w\<lparr>clock := clock w + ms\<rparr>"

text \<open>\<open>Math.floor(Date.now() / 1000)\<close>\<close>

definition nowSeconds :: "'s world \<Rightarrow> nat" where
  "nowSeconds w = clock w div 1000"

section \<open>Retry executor (utils/retry.ts)\<close>

record RetryConfig =
  maxRetries :: nat
  initialDelay :: nat
  maxDelay :: nat
  backoffMultiplier :: nat

definition DEFAULT_RETRY_CONFIG :: RetryConfig where
  "DEFAULT_RETRY_CONFIG =
     \<lparr>maxRetries = 3, initialDelay = 1000, maxDelay = 10000, backoffMultiplier = 2\<rparr>"

fun isNonRetryableError :: "thrown \<Rightarrow> bool" where
  "isNonRetryableError (Error errorName msg orig) =
     (let errorMessage = toLowerCase msg in
      if errorName = ''ValidationError'' \<or> errorName = ''OwnershipError''
         \<or> errorName = ''SignatureError'' then True
      else if includes_str errorMessage ''400'' \<or> includes_str errorMessage ''404'' then True
      else False)"
| "isNonRetryableError (NonError v) = False"

text \<open>The statement after the loop: all retries exhausted.\<close>

definition exhausted :: "RetryConfig \<Rightarrow> thrown option \<Rightarrow> ('s, 'a) op" where
  "exhausted cfg lastError =
     throw (ArkivNetworkError
       (''Operation failed after '' @ numberToString (maxRetries cfg + 1) @ '' attempts'')
       lastError)"

text \<open>
  The \<open>for\<close> loop of \<open>withRetry\<close>, from the state \<open>(attempt, delay, lastError)\<close>.
  \<open>return\<close> leaves the function with the value; each \<open>break\<close> goes to \<open>exhausted\<close>.
\<close>

function withRetry_loop ::
  "('s, 'a) op \<Rightarrow> RetryConfig \<Rightarrow> nat \<Rightarrow> nat \<Rightarrow> thrown option \<Rightarrow> ('s, 'a) op" where
  "withRetry_loop fn cfg attempt delay lastError w =
     (if attempt \<le> maxRetries cfg then
        (case fn w of
           (Inr v, w') \<Rightarrow> (Inr v, w')
         | (Inl error, w') \<Rightarrow>
             if attempt = maxRetries cfg then exhausted cfg (Some error) w'
             else if isNonRetryableError error then exhausted cfg (Some error) w'
             else withRetry_loop fn cfg (attempt + 1)
                    (min (delay * backoffMultiplier cfg) (maxDelay cfg)) (Some error)
                    (sleep delay w'))
      else exhausted cfg lastError w)"
  by pat_completeness auto
termination
  by (relation "measure (\<lambda>(fn, cfg, attempt, delay, lastError, w). maxRetries cfg + 1 - attempt)")
     auto

declare withRetry_loop.simps [simp del]

definition withRetryWith :: "('s, 'a) op \<Rightarrow> RetryConfig \<Rightarrow> ('s, 'a) op" where
  "withRetryWith fn cfg = withRetry_loop fn cfg 0 (initialDelay cfg) None"

text \<open>\<open>withRetry(fn)\<close> with no second argument, as every caller in the client has it.\<close>

definition withRetry :: "('s, 'a) op \<Rightarrow> ('s, 'a) op" where
  "withRetry fn = withRetryWith fn DEFAULT_RETRY_CONFIG"

text \<open>
  A test double in the manner of \<open>vi.fn()\<close>: its store state is the number of times it
  has been invoked, and its \<open>k\<close>-th invocation (from 0) settles as \<open>behaviour k\<close>.
\<close>

definition countingOp :: "(nat \<Rightarrow> thrown + 'a) \<Rightarrow> (nat, 'a) op" where
  "countingOp behaviour w = (behaviour (store w), w\<lparr>store := Suc (store w)\<rparr>)"

definition failsTwiceThenSucceeds :: "nat \<Rightarrow> thrown + string" where
  "failsTwiceThenSucceeds k =
     (if k < 2 then Inl (Error ''Error'' ''Temporary failure'' None) else Inr ''success'')"

definition alwaysFailsValidation :: "nat \<Rightarrow> thrown + string" where
  "alwaysFailsValidation k = Inl (ValidationError ''Invalid input'')"


section \<open>Validation of the create input (utils/validation.ts, continued)\<close>

definition validateTokenInfo :: "TokenInfo \<Rightarrow> string \<Rightarrow> thrown + unit" where
  "validateTokenInfo token fieldName =
     (case validateAddress (address token) (fieldName @ ''.address'') of
        Inl e \<Rightarrow> Inl e
      | Inr _ \<Rightarrow>
          if chainId token \<le> 0 then
            Inl (ValidationError (fieldName @ ''.chainId must be a positive integer''))
          else Inr ())"

text \<open>\<open>now\<close> is \<open>Math.floor(Date.now() / 1000)\<close>, read inside the function.\<close>

definition validateExpiration :: "nat \<Rightarrow> int \<Rightarrow> thrown + unit" where
  "validateExpiration now expiresIn' =
     (if expiresIn' \<le> 0 then
        Inl (ValidationError ''expiresIn must be a positive integer timestamp'')
      else if expiresIn' \<le> int now then
        Inl (ValidationError ''expiresIn must be in the future'')
      else if expiresIn' > int now + 30 * 24 * 60 * 60 then
        Inl (ValidationError ''expiresIn cannot be more than 30 days in the future'')
      else Inr ())"

text \<open>The \<open>forEach\<close> over \<open>counterpartyRestrictions\<close>, from index \<open>i\<close>.\<close>

fun validateRestrictions :: "nat \<Rightarrow> string list \<Rightarrow> thrown + unit" where
  "validateRestrictions i [] = Inr ()"
| "validateRestrictions i (a # as) =
     (case validateAddress a (''counterpartyRestrictions['' @ numberToString i @ '']'') of
        Inl e \<Rightarrow> Inl e
      | Inr _ \<Rightarrow> validateRestrictions (Suc i) as)"

definition validateCreateRFQInput :: "nat \<Rightarrow> CreateRFQInput \<Rightarrow> thrown + unit" where
  "validateCreateRFQInput now input =
     (case validateTokenInfo (in_baseToken input) ''baseToken'' of Inl e \<Rightarrow> Inl e | Inr _ \<Rightarrow>
      case validateTokenInfo (in_quoteToken input) ''quoteToken'' of Inl e \<Rightarrow> Inl e | Inr _ \<Rightarrow>
      case validateAmount (in_baseAmount input) ''baseAmount'' of Inl e \<Rightarrow> Inl e | Inr _ \<Rightarrow>
      case validateAmount (in_quoteAmount input) ''quoteAmount'' of Inl e \<Rightarrow> Inl e | Inr _ \<Rightarrow>
      case validateExpiration now (in_expiresIn input) of Inl e \<Rightarrow> Inl e | Inr _ \<Rightarrow>
      case (case in_minFillAmount input of
              None \<Rightarrow> Inr ()
            | Some m \<Rightarrow> validateAmount m ''minFillAmount'') of Inl e \<Rightarrow> Inl e | Inr _ \<Rightarrow>
      (case in_counterpartyRestrictions input of
         None \<Rightarrow> Inr ()
       | Some rs \<Rightarrow> validateRestrictions 0 rs))"

section \<open>The collaborators (types/arkiv.ts, ethers)\<close>

text \<open>
  \<open>ArkivPublicClient\<close> is an interface: any implementation is a record of operations
  over its own state \<open>'s\<close>. Each may resolve or reject, and may read the wall clock
  (its first argument). \<open>watchEntities\<close> is treated apart, with the change feed.
\<close>

record 's ArkivPublicClient =
  writeEntity :: "nat \<Rightarrow> WriteEntityOptions \<Rightarrow> 's \<Rightarrow> (thrown + ArkivEntity) \<times> 's"
  queryEntities :: "nat \<Rightarrow> QueryOptions \<Rightarrow> 's \<Rightarrow> (thrown + QueryResponse) \<times> 's"
  getEntity :: "nat \<Rightarrow> string \<Rightarrow> string \<Rightarrow> 's \<Rightarrow> (thrown + ArkivEntity option) \<times> 's"
  deleteEntity :: "nat \<Rightarrow> string \<Rightarrow> string \<Rightarrow> 's \<Rightarrow> (thrown + unit) \<times> 's"

text \<open>
  The wallet: \<open>getAddress()\<close> and \<open>signMessage(message)\<close>. The message the client signs
  is \<open>JSON.stringify(data)\<close>, a function of the object, so the signer is modelled on
  the object itself.
\<close>

record Signer =
  getAddress :: "thrown + string"
  signMessage :: "JsObject \<Rightarrow> thrown + string"

record 's ArkivRFQClient =
  arkivClient :: "'s ArkivPublicClient"
  signer :: "Signer option"

text \<open>The client's calls into the store; each is logged, then performed.\<close>

definition call_writeEntity :: "'s ArkivRFQClient \<Rightarrow> WriteEntityOptions \<Rightarrow> ('s, ArkivEntity) op" where
  "call_writeEntity cl opts w =
     (case writeEntity (arkivClient cl) (clock w) opts (store w) of
        (r, s') \<Rightarrow> (r, w\<lparr>calls := calls w @ [WriteCall opts], store := s'\<rparr>))"

definition call_getEntity ::
  "'s ArkivRFQClient \<Rightarrow> string \<Rightarrow> string \<Rightarrow> ('s, ArkivEntity option) op" where
  "call_getEntity cl ty k w =
     (case getEntity (arkivClient cl) (clock w) ty k (store w) of
        (r, s') \<Rightarrow> (r, w\<lparr>calls := calls w @ [GetCall ty k], store := s'\<rparr>))"

definition call_deleteEntity :: "'s ArkivRFQClient \<Rightarrow> string \<Rightarrow> string \<Rightarrow> ('s, unit) op" where
  "call_deleteEntity cl ty k w =
     (case deleteEntity (arkivClient cl) (clock w) ty k (store w) of
        (r, s') \<Rightarrow> (r, w\<lparr>calls := calls w @ [DeleteCall ty k], store := s'\<rparr>))"

definition call_queryEntities :: "'s ArkivRFQClient \<Rightarrow> QueryOptions \<Rightarrow> ('s, QueryResponse) op" where
  "call_queryEntities cl opts w =
     (case queryEntities (arkivClient cl) (clock w) opts (store w) of
        (r, s') \<Rightarrow> (r, w\<lparr>calls := calls w @ [QueryCall opts], store := s'\<rparr>))"

section \<open>The client (client/ArkivRFQClient.ts)\<close>

definition RFQ_ENTITY_TYPE :: string where
  "RFQ_ENTITY_TYPE = ''RFQ''"

definition DEFAULT_POLLING_INTERVAL :: nat where
  "DEFAULT_POLLING_INTERVAL = 2000"

definition DEFAULT_PAGE_LIMIT :: nat where
  "DEFAULT_PAGE_LIMIT = 50"

definition getSignerAddress :: "'s ArkivRFQClient \<Rightarrow> thrown + string" where
  "getSignerAddress cl =
     (case signer cl of
        None \<Rightarrow> Inl (SignatureError ''No signer configured. Call setSigner() first.'' None)
      | Some sg \<Rightarrow>
          (case getAddress sg of
             Inr a \<Rightarrow> Inr a
           | Inl error \<Rightarrow> Inl (SignatureError ''Failed to get signer address'' (Some error))))"

definition signRFQData :: "'s ArkivRFQClient \<Rightarrow> JsObject \<Rightarrow> thrown + string" where
  "signRFQData cl d =
     (case signer cl of
        None \<Rightarrow> Inl (SignatureError ''No signer configured. Call setSigner() first.'' None)
      | Some sg \<Rightarrow>
          (case signMessage sg d of
             Inr signature \<Rightarrow> Inr signature
           | Inl error \<Rightarrow> Inl (SignatureError ''Failed to sign RFQ data'' (Some error))))"

text \<open>
  \<open>random\<close> stands for \<open>Math.random().toString(36).substring(2, 15)\<close>, which the
  caller of the model supplies.
\<close>

definition generateRFQId :: "string \<Rightarrow> nat \<Rightarrow> string \<Rightarrow> string" where
  "generateRFQId creator' timestamp' random =
     toLowerCase creator' @ ''-'' @ numberToString timestamp' @ ''-'' @ random"

text \<open>
  \<open>entityToRFQ\<close>: a fresh object with the fourteen properties, each read from
  \<open>entity.data\<close> (\<open>undefined\<close> where \<open>data\<close> has none).
\<close>

definition entityToRFQ :: "ArkivEntity \<Rightarrow> RFQ" where
  "entityToRFQ entity =
     [(''id'', getProp (data entity) ''id''),
      (''creator'', getProp (data entity) ''creator''),
      (''baseToken'', getProp (data entity) ''baseToken''),
      (''quoteToken'', getProp (data entity) ''quoteToken''),
      (''baseAmount'', getProp (data entity) ''baseAmount''),
      (''quoteAmount'', getProp (data entity) ''quoteAmount''),
      (''expiresIn'', getProp (data entity) ''expiresIn''),
      (''status'', getProp (data entity) ''status''),
      (''createdAt'', getProp (data entity) ''createdAt''),
      (''updatedAt'', getProp (data entity) ''updatedAt''),
      (''filledAmount'', getProp (data entity) ''filledAmount''),
      (''fills'', getProp (data entity) ''fills''),
      (''minFillAmount'', getProp (data entity) ''minFillAmount''),
      (''counterpartyRestrictions'', getProp (data entity) ''counterpartyRestrictions'')]"

text \<open>\<open>a || b\<close> on an optional string: \<open>undefined\<close> and the empty string are falsy.\<close>

definition orElse :: "string option \<Rightarrow> string \<Rightarrow> string" where
  "orElse a b = (case a of None \<Rightarrow> b | Some v \<Rightarrow> if v = [] then b else v)"

text \<open>The values of the typed input as they sit in an object.\<close>

definition tokenObject :: "TokenInfo \<Rightarrow> JsValue" where
  "tokenObject t = JObject [(''address'', JString (address t)), (''chainId'', JNumber (chainId t))]"

definition optionalString :: "string option \<Rightarrow> JsValue" where
  "optionalString v = (case v of None \<Rightarrow> JUndefined | Some x \<Rightarrow> JString x)"

definition optionalStrings :: "string list option \<Rightarrow> JsValue" where
  "optionalStrings v = (case v of None \<Rightarrow> JUndefined | Some xs \<Rightarrow> JArray (map JString xs))"

text \<open>The object literal \<open>rfqData\<close> of \<open>createRFQ\<close>.\<close>

definition rfqData :: "string \<Rightarrow> string \<Rightarrow> nat \<Rightarrow> CreateRFQInput \<Rightarrow> JsObject" where
  "rfqData i creator' now input =
     [(''id'', JString i),
      (''creator'', JString creator'),
      (''baseToken'', tokenObject (in_baseToken input)),
      (''quoteToken'', tokenObject (in_quoteToken input)),
      (''baseAmount'', JString (in_baseAmount input)),
      (''quoteAmount'', JString (in_quoteAmount input)),
      (''expiresIn'', JNumber (in_expiresIn input)),
      (''status'', JString ''OPEN''),
      (''createdAt'', JNumber (int now)),
      (''updatedAt'', JNumber (int now)),
      (''filledAmount'', JString (orElse (in_minFillAmount input) ''0'')),
      (''fills'', JArray []),
      (''minFillAmount'', optionalString (in_minFillAmount input)),
      (''counterpartyRestrictions'', optionalStrings (in_counterpartyRestrictions input))]"

definition createRFQ_attempt ::
  "'s ArkivRFQClient \<Rightarrow> string \<Rightarrow> JsObject \<Rightarrow> string \<Rightarrow> ('s, RFQ) op" where
  "createRFQ_attempt cl i d signature w =
     (case call_writeEntity cl
             \<lparr>w_entityType = RFQ_ENTITY_TYPE, w_entityKey = i, w_data = d,
              w_signature = Some signature\<rparr> w of
        (Inr entity, w') \<Rightarrow> (Inr (entityToRFQ entity), w')
      | (Inl error, w') \<Rightarrow> (Inl (ArkivNetworkError ''Failed to create RFQ'' (Some error)), w'))"

definition createRFQ :: "'s ArkivRFQClient \<Rightarrow> string \<Rightarrow> CreateRFQInput \<Rightarrow> ('s, RFQ) op" where
  "createRFQ cl random input w =
     (case validateCreateRFQInput (nowSeconds w) input of Inl e \<Rightarrow> (Inl e, w) | Inr _ \<Rightarrow>
      case getSignerAddress cl of Inl e \<Rightarrow> (Inl e, w) | Inr creator' \<Rightarrow>
      let now = nowSeconds w;
          i = generateRFQId creator' now random;
          d = rfqData i creator' now input
      in case signRFQData cl d of Inl e \<Rightarrow> (Inl e, w) | Inr signature \<Rightarrow>
         withRetry (createRFQ_attempt cl i d signature) w)"

definition getRFQ_attempt :: "'s ArkivRFQClient \<Rightarrow> string \<Rightarrow> ('s, RFQ option) op" where
  "getRFQ_attempt cl i w =
     (case call_getEntity cl RFQ_ENTITY_TYPE i w of
        (Inr entity, w') \<Rightarrow>
          (Inr (case entity of None \<Rightarrow> None | Some e \<Rightarrow> Some (entityToRFQ e)), w')
      | (Inl error, w') \<Rightarrow> (Inl (ArkivNetworkError ''Failed to get RFQ'' (Some error)), w'))"

definition getRFQ :: "'s ArkivRFQClient \<Rightarrow> string \<Rightarrow> ('s, RFQ option) op" where
  "getRFQ cl i w =
     (case validateRFQId i of Inl e \<Rightarrow> (Inl e, w) | Inr _ \<Rightarrow>
      withRetry (getRFQ_attempt cl i) w)"

text \<open>
  The object literal \<open>{...existingRFQ, ...updates, updatedAt: now}\<close>: the properties of
  \<open>existingRFQ\<close>, then every own property of \<open>updates\<close> over them, then \<open>updatedAt\<close>.
\<close>

definition updatedData :: "RFQ \<Rightarrow> UpdateRFQInput \<Rightarrow> nat \<Rightarrow> JsObject" where
  "updatedData existingRFQ updates now =
     setProp ''updatedAt'' (JNumber (int now)) (assign (assign [] existingRFQ) updates)"

text \<open>
  \<open>v.toLowerCase()\<close> on a value read from an object: a string answers; on anything
  else the call throws a \<open>TypeError\<close> (its message is the engine's, and no code reads
  it).
\<close>

definition TypeError :: "string \<Rightarrow> thrown" where
  "TypeError msg = Error ''TypeError'' msg None"

fun lowerCaseOf :: "JsValue \<Rightarrow> thrown + string" where
  "lowerCaseOf (JString s') = Inr (toLowerCase s')"
| "lowerCaseOf JUndefined = Inl (TypeError ''Cannot read properties of undefined'')"
| "lowerCaseOf v = Inl (TypeError ''toLowerCase is not a function'')"

definition updateRFQ_attempt ::
  "'s ArkivRFQClient \<Rightarrow> string \<Rightarrow> JsObject \<Rightarrow> string \<Rightarrow> ('s, RFQ) op" where
  "updateRFQ_attempt cl i d signature w =
     (case call_writeEntity cl
             \<lparr>w_entityType = RFQ_ENTITY_TYPE, w_entityKey = i, w_data = d,
              w_signature = Some signature\<rparr> w of
        (Inr entity, w') \<Rightarrow> (Inr (entityToRFQ entity), w')
      | (Inl error, w') \<Rightarrow> (Inl (ArkivNetworkError ''Failed to update RFQ'' (Some error)), w'))"

definition updateRFQ :: "'s ArkivRFQClient \<Rightarrow> string \<Rightarrow> UpdateRFQInput \<Rightarrow> ('s, RFQ) op" where
  "updateRFQ cl i updates w =
     (case validateRFQId i of Inl e \<Rightarrow> (Inl e, w) | Inr _ \<Rightarrow>
      case getRFQ cl i w of (Inl e, w1) \<Rightarrow> (Inl e, w1) | (Inr existing, w1) \<Rightarrow>
      case existing of None \<Rightarrow> (Inl (RFQNotFoundError i), w1) | Some existingRFQ \<Rightarrow>
      case getSignerAddress cl of Inl e \<Rightarrow> (Inl e, w1) | Inr signerAddress \<Rightarrow>
      case lowerCaseOf (getProp existingRFQ ''creator'') of
        Inl e \<Rightarrow> (Inl e, w1) | Inr creatorLower \<Rightarrow>
      if creatorLower \<noteq> toLowerCase signerAddress then
        (Inl (OwnershipError ''Only the RFQ creator can update this RFQ''), w1)
      else if getProp existingRFQ ''status'' \<noteq> JString ''OPEN'' then
        (Inl (OwnershipError ''Cannot update a non-open RFQ''), w1)
      else
        let d = updatedData existingRFQ updates (nowSeconds w1)
        in case signRFQData cl d of Inl e \<Rightarrow> (Inl e, w1) | Inr signature \<Rightarrow>
           withRetry (updateRFQ_attempt cl i d signature) w1)"

text \<open>The argument \<open>{ status: 'CANCELLED' }\<close> of \<open>cancelRFQ\<close>.\<close>

definition cancelUpdate :: UpdateRFQInput where
  "cancelUpdate = [(''status'', JString ''CANCELLED'')]"

definition cancelRFQ :: "'s ArkivRFQClient \<Rightarrow> string \<Rightarrow> ('s, RFQ) op" where
  "cancelRFQ cl i = updateRFQ cl i cancelUpdate"

definition deleteRFQ_attempt :: "'s ArkivRFQClient \<Rightarrow> string \<Rightarrow> ('s, unit) op" where
  "deleteRFQ_attempt cl i w =
     (case call_deleteEntity cl RFQ_ENTITY_TYPE i w of
        (Inr u, w') \<Rightarrow> (Inr (), w')
      | (Inl error, w') \<Rightarrow> (Inl (ArkivNetworkError ''Failed to delete RFQ'' (Some error)), w'))"

definition deleteRFQ :: "'s ArkivRFQClient \<Rightarrow> string \<Rightarrow> ('s, unit) op" where
  "deleteRFQ cl i w =
     (case validateRFQId i of Inl e \<Rightarrow> (Inl e, w) | Inr _ \<Rightarrow>
      case getRFQ cl i w of (Inl e, w1) \<Rightarrow> (Inl e, w1) | (Inr existing, w1) \<Rightarrow>
      case existing of None \<Rightarrow> (Inl (RFQNotFoundError i), w1) | Some existingRFQ \<Rightarrow>
      case getSignerAddress cl of Inl e \<Rightarrow> (Inl e, w1) | Inr signerAddress \<Rightarrow>
      case lowerCaseOf (getProp existingRFQ ''creator'') of
        Inl e \<Rightarrow> (Inl e, w1) | Inr creatorLower \<Rightarrow>
      if creatorLower \<noteq> toLowerCase signerAddress then
        (Inl (OwnershipError ''Only the RFQ creator can delete this RFQ''), w1)
      else withRetry (deleteRFQ_attempt cl i) w1)"


subsection \<open>Queries\<close>

record QueryFilters =
  qf_tokenPair :: "(TokenInfo \<times> TokenInfo) option"
  qf_chain :: "int option"
  qf_priceRange :: "(int \<times> int) option"
  qf_creator :: "string option"
  qf_expiration :: "(int \<times> int) option"
  qf_status :: "RFQStatus option"

datatype SortBy = CREATION_TIME | EXPIRATION | BEST_PRICE

record SortOptions =
  sortBy :: SortBy
  ascending :: "bool option"

record PaginationOptions =
  pg_limit :: "nat option"
  pg_cursor :: "string option"

record QueryResult =
  rfqs :: "RFQ list"
  qr_total :: nat
  hasMore :: bool
  qr_nextCursor :: "string option"

text \<open>The string value of the enum \<open>RFQStatus\<close>.\<close>

fun statusString :: "RFQStatus \<Rightarrow> string" where
  "statusString OPEN = ''OPEN''"
| "statusString FILLED = ''FILLED''"
| "statusString CANCELLED = ''CANCELLED''"

text \<open>
  \<open>buildArkivFilters\<close>: each \<open>if (filters.x)\<close> is a truthiness test, so a chain id of 0
  and an empty creator string are skipped like absent ones. The price range adds no
  property.
\<close>

definition buildArkivFilters :: "QueryFilters option \<Rightarrow> ArkivFilters" where
  "buildArkivFilters filters =
     (case filters of
        None \<Rightarrow> []
      | Some f \<Rightarrow>
          (case qf_tokenPair f of
             None \<Rightarrow> []
           | Some (base, quote) \<Rightarrow>
               [(''baseToken.address'', FString (address base)),
                (''baseToken.chainId'', FNumber (chainId base)),
                (''quoteToken.address'', FString (address quote)),
                (''quoteToken.chainId'', FNumber (chainId quote))])
          @ (case qf_chain f of
               None \<Rightarrow> []
             | Some c \<Rightarrow>
                 if c = 0 then []
                 else [(''$or'', FOr [[(''baseToken.chainId'', FNumber c)],
                                      [(''quoteToken.chainId'', FNumber c)]])])
          @ (case qf_creator f of
               None \<Rightarrow> []
             | Some a \<Rightarrow> if a = [] then [] else [(''creator'', FString (toLowerCase a))])
          @ (case qf_expiration f of
               None \<Rightarrow> []
             | Some (minTime, maxTime) \<Rightarrow> [(''expiresIn'', FRange minTime maxTime)])
          @ (case qf_status f of
               None \<Rightarrow> []
             | Some st \<Rightarrow> [(''status'', FString (statusString st))]))"

definition buildArkivSort :: "SortOptions option \<Rightarrow> (string \<times> SortOrder) option" where
  "buildArkivSort sort' =
     (case sort' of
        None \<Rightarrow> Some (''createdAt'', desc)
      | Some so \<Rightarrow>
          Some ((case sortBy so of
                   CREATION_TIME \<Rightarrow> ''createdAt''
                 | EXPIRATION \<Rightarrow> ''expiresIn''
                 | BEST_PRICE \<Rightarrow> ''createdAt''),
                (if ascending so = Some True then asc else desc)))"


definition queryRFQs_attempt ::
  "'s ArkivRFQClient \<Rightarrow> QueryFilters option \<Rightarrow> SortOptions option \<Rightarrow> PaginationOptions option
   \<Rightarrow> ('s, QueryResult) op" where
  "queryRFQs_attempt cl filters sort' pagination w =
     (let arkivFilters = buildArkivFilters filters;
          arkivSort = buildArkivSort sort';
          lim = (case pagination of
                   None \<Rightarrow> DEFAULT_PAGE_LIMIT
                 | Some p \<Rightarrow>
                     (case pg_limit p of
                        None \<Rightarrow> DEFAULT_PAGE_LIMIT
                      | Some n \<Rightarrow> if n = 0 then DEFAULT_PAGE_LIMIT else n))
      in case call_queryEntities cl
                \<lparr>q_entityType = RFQ_ENTITY_TYPE, q_filters = Some arkivFilters,
                 q_sort = arkivSort, q_limit = Some lim,
                 q_cursor = (case pagination of None \<Rightarrow> None | Some p \<Rightarrow> pg_cursor p)\<rparr> w of
           (Inr response, w') \<Rightarrow>
             (Inr \<lparr>rfqs = map entityToRFQ (entities response),
                   qr_total = total response,
                   hasMore = (case nextCursor response of None \<Rightarrow> False | Some c \<Rightarrow> c \<noteq> []),
                   qr_nextCursor = nextCursor response\<rparr>, w')
         | (Inl error, w') \<Rightarrow>
             (Inl (ArkivNetworkError ''Failed to query RFQs'' (Some error)), w'))"

definition queryRFQs ::
  "'s ArkivRFQClient \<Rightarrow> QueryFilters option \<Rightarrow> SortOptions option \<Rightarrow> PaginationOptions option
   \<Rightarrow> ('s, QueryResult) op" where
  "queryRFQs cl filters sort' pagination =
     withRetry (queryRFQs_attempt cl filters sort' pagination)"

subsection \<open>The change feed\<close>

text \<open>
  A handler is a callback with effects on the application's own state \<open>'h\<close>; an absent
  handler (\<open>undefined\<close>) is \<open>None\<close>.
\<close>

record 'h WatchRFQsOptions =
  onCreated :: "(RFQ \<Rightarrow> 'h \<Rightarrow> 'h) option"
  onUpdated :: "(RFQ \<Rightarrow> 'h \<Rightarrow> 'h) option"
  onCancelled :: "(RFQ \<Rightarrow> 'h \<Rightarrow> 'h) option"
  onFilled :: "(RFQ \<Rightarrow> 'h \<Rightarrow> 'h) option"
  pollingInterval :: "nat option"
  wo_filters :: "QueryFilters option"

record 'h WatchEntitiesOptions =
  we_entityType :: string
  we_onCreated :: "(ArkivEntity \<Rightarrow> 'h \<Rightarrow> 'h) option"
  we_onUpdated :: "(ArkivEntity \<Rightarrow> 'h \<Rightarrow> 'h) option"
  we_onDeleted :: "(string \<Rightarrow> 'h \<Rightarrow> 'h) option"
  we_pollingInterval :: "nat option"
  we_filters :: "ArkivFilters option"

text \<open>The two arrow functions \<open>watchRFQs\<close> hands to the store.\<close>

definition createdCallback :: "'h WatchRFQsOptions \<Rightarrow> (ArkivEntity \<Rightarrow> 'h \<Rightarrow> 'h) option" where
  "createdCallback options =
     (case onCreated options of
        None \<Rightarrow> None
      | Some created \<Rightarrow>
          Some (\<lambda>entity h.
            let rfq = entityToRFQ entity
            in if getProp rfq ''status'' = JString ''OPEN'' then created rfq h else h))"

definition updatedCallback :: "'h WatchRFQsOptions \<Rightarrow> (ArkivEntity \<Rightarrow> 'h \<Rightarrow> 'h) option" where
  "updatedCallback options =
     (case onUpdated options of
        None \<Rightarrow> None
      | Some updated \<Rightarrow>
          Some (\<lambda>entity h.
            let rfq = entityToRFQ entity
            in if getProp rfq ''status'' = JString ''CANCELLED'' \<and> onCancelled options \<noteq> None then
                 (case onCancelled options of None \<Rightarrow> h | Some c \<Rightarrow> c rfq h)
               else if getProp rfq ''status'' = JString ''FILLED'' \<and> onFilled options \<noteq> None then
                 (case onFilled options of None \<Rightarrow> h | Some f \<Rightarrow> f rfq h)
               else (case onUpdated options of None \<Rightarrow> h | Some u \<Rightarrow> u rfq h)))"

definition watchOptions :: "'h WatchRFQsOptions \<Rightarrow> 'h WatchEntitiesOptions" where
  "watchOptions options =
     \<lparr>we_entityType = RFQ_ENTITY_TYPE,
      we_onCreated = createdCallback options,
      we_onUpdated = updatedCallback options,
      we_onDeleted = None,
      we_pollingInterval =
        Some (case pollingInterval options of
                None \<Rightarrow> DEFAULT_POLLING_INTERVAL
              | Some n \<Rightarrow> if n = 0 then DEFAULT_POLLING_INTERVAL else n),
      we_filters = Some (buildArkivFilters (wo_filters options))\<rparr>"

text \<open>
  \<open>watchRFQs\<close>, over the store's \<open>watchEntities\<close> method (its first argument here), which
  returns the unsubscribe handle or throws.
\<close>

definition watchRFQs ::
  "('h WatchEntitiesOptions \<Rightarrow> 's \<Rightarrow> (thrown + 'u) \<times> 's) \<Rightarrow> 'h WatchRFQsOptions
   \<Rightarrow> 's \<Rightarrow> (thrown + 'u) \<times> 's" where
  "watchRFQs watchEntities' options s =
     (case watchEntities' (watchOptions options) s of
        (Inr unsubscribe, s') \<Rightarrow> (Inr unsubscribe, s')
      | (Inl error, s') \<Rightarrow>
          (Inl (ArkivNetworkError ''Failed to start watching RFQs'' (Some error)), s'))"

text \<open>
  What a store does with an update it has observed for a subscription: it calls the
  subscription's \<open>onUpdated\<close> with the entity if there is one (as the test double does in
  \<open>triggerWatchers\<close>: \<open>eventType === 'updated' && watcher.options.onUpdated\<close>).
\<close>

definition notifyUpdated :: "'h WatchEntitiesOptions \<Rightarrow> ArkivEntity \<Rightarrow> 'h \<Rightarrow> 'h" where
  "notifyUpdated opts entity h =
     (case we_onUpdated opts of None \<Rightarrow> h | Some cb \<Rightarrow> cb entity h)"

definition notifyCreated :: "'h WatchEntitiesOptions \<Rightarrow> ArkivEntity \<Rightarrow> 'h \<Rightarrow> 'h" where
  "notifyCreated opts entity h =
     (case we_onCreated opts of None \<Rightarrow> h | Some cb \<Rightarrow> cb entity h)"

text \<open>Handlers that record the event they were called for, as a test would.\<close>

datatype Event = EvCreated RFQ | EvUpdated RFQ | EvCancelled RFQ | EvFilled RFQ

definition record_ev :: "(RFQ \<Rightarrow> Event) \<Rightarrow> RFQ \<Rightarrow> Event list \<Rightarrow> Event list" where
  "record_ev ev rfq h = h @ [ev rfq]"


section \<open>The test doubles (tests/mocks)\<close>

text \<open>
  \<open>ArkivClientMock\<close>: an in-memory store. Its \<open>Map\<close> is the list of its entries in
  insertion order; its watchers are the subscriptions' options; \<open>m_app\<close> is the state the
  subscribed handlers act on, since the mock calls them inside \<open>writeEntity\<close>.
\<close>

record 'h MockState =
  m_entities :: "(string \<times> ArkivEntity) list"
  m_watchers :: "'h WatchEntitiesOptions list"
  m_app :: 'h

fun mapSet :: "string \<Rightarrow> 'v \<Rightarrow> (string \<times> 'v) list \<Rightarrow> (string \<times> 'v) list" where
  "mapSet k v [] = [(k, v)]"
| "mapSet k v ((k', v') # rest) = (if k' = k then (k, v) # rest else (k', v') # mapSet k v rest)"

fun mapGet :: "string \<Rightarrow> (string \<times> 'v) list \<Rightarrow> 'v option" where
  "mapGet k [] = None"
| "mapGet k ((k', v') # rest) = (if k' = k then Some v' else mapGet k rest)"

fun mapDelete :: "string \<Rightarrow> (string \<times> 'v) list \<Rightarrow> (string \<times> 'v) list" where
  "mapDelete k [] = []"
| "mapDelete k ((k', v') # rest) = (if k' = k then rest else (k', v') # mapDelete k rest)"

text \<open>
  \<open>getNestedValue(obj, path)\<close>: \<open>path.split('.').reduce((current, prop) =>
  current?.[prop], obj)\<close>. A property of an object is looked up; of \<open>undefined\<close> the
  optional chaining gives \<open>undefined\<close>; the built-in properties of strings, numbers and
  arrays (\<open>length\<close>, indices) are not modelled and read as \<open>undefined\<close>.
\<close>

fun splitDots :: "string \<Rightarrow> string list" where
  "splitDots [] = [[]]"
| "splitDots (c # cs) =
     (if c = CHR ''.'' then [] # splitDots cs
      else (case splitDots cs of [] \<Rightarrow> [[c]] | seg # segs \<Rightarrow> (c # seg) # segs))"

fun propOf :: "JsValue \<Rightarrow> string \<Rightarrow> JsValue" where
  "propOf (JObject ps) prop = getProp ps prop"
| "propOf v prop = JUndefined"

definition getNestedValue :: "JsObject \<Rightarrow> string \<Rightarrow> JsValue" where
  "getNestedValue obj path = foldl propOf (JObject obj) (splitDots path)"

text \<open>\<open>entityValue === value\<close> between a stored value and a filter value.\<close>

fun strictEquals :: "JsValue \<Rightarrow> FilterValue \<Rightarrow> bool" where
  "strictEquals (JString a) (FString b) = (a = b)"
| "strictEquals (JNumber a) (FNumber b) = (a = b)"
| "strictEquals _ _ = False"

text \<open>
  \<open>entityValue < bound\<close> and \<open>entityValue > bound\<close> against a number. Only numbers are
  compared here (a comparison with \<open>undefined\<close> is false in JavaScript too, and the
  conversion of a numeric string is not modelled); the client builds a range for
  \<open>expiresIn\<close> only, which it stores as a number.
\<close>

fun lessThanNumber :: "JsValue \<Rightarrow> int \<Rightarrow> bool" where
  "lessThanNumber (JNumber a) b = (a < b)"
| "lessThanNumber _ b = False"

fun greaterThanNumber :: "JsValue \<Rightarrow> int \<Rightarrow> bool" where
  "greaterThanNumber (JNumber a) b = (a > b)"
| "greaterThanNumber _ b = False"

text \<open>
  \<open>matchesFilters\<close>, on the properties of the filter object in order. Under the key
  \<open>$or\<close> the value is the array of alternatives (anything else there makes the source
  raise a \<open>TypeError\<close>; the client never builds it, and the model answers \<open>False\<close>).
\<close>

fun matchesFilters :: "JsObject \<Rightarrow> ArkivFilters \<Rightarrow> bool"
  and matchesSome :: "JsObject \<Rightarrow> ArkivFilters list \<Rightarrow> bool" where
  "matchesFilters d [] = True"
| "matchesFilters d ((key, value) # rest) =
     (if key = ''$or'' then
        (case value of
           FOr orConditions \<Rightarrow>
             if \<not> matchesSome d orConditions then False else matchesFilters d rest
         | _ \<Rightarrow> False)
      else
        (case value of
           FRange gte lte \<Rightarrow>
             if lessThanNumber (getNestedValue d key) gte then False
             else if greaterThanNumber (getNestedValue d key) lte then False
             else matchesFilters d rest
         | _ \<Rightarrow>
             if \<not> strictEquals (getNestedValue d key) value then False
             else matchesFilters d rest))"
| "matchesSome d [] = False"
| "matchesSome d (c # cs) = (matchesFilters d c \<or> matchesSome d cs)"

definition matchesFiltersOpt :: "ArkivEntity \<Rightarrow> ArkivFilters option \<Rightarrow> bool" where
  "matchesFiltersOpt entity filters =
     (case filters of None \<Rightarrow> True | Some f \<Rightarrow> matchesFilters (data entity) f)"

datatype EventType = created | updated

fun triggerWatchers ::
  "'h WatchEntitiesOptions list \<Rightarrow> string \<Rightarrow> ArkivEntity \<Rightarrow> EventType \<Rightarrow> 'h \<Rightarrow> 'h" where
  "triggerWatchers [] entityType entity eventType h = h"
| "triggerWatchers (watcher # ws) entityType entity eventType h =
     triggerWatchers ws entityType entity eventType
       (if we_entityType watcher = entityType then
          if matchesFiltersOpt entity (we_filters watcher) then
            if eventType = created \<and> we_onCreated watcher \<noteq> None then
              notifyCreated watcher entity h
            else if eventType = updated \<and> we_onUpdated watcher \<noteq> None then
              notifyUpdated watcher entity h
            else h
          else h
        else h)"

definition mock_writeEntity ::
  "nat \<Rightarrow> WriteEntityOptions \<Rightarrow> 'h MockState \<Rightarrow> (thrown + ArkivEntity) \<times> 'h MockState" where
  "mock_writeEntity now options st =
     (let entity = \<lparr>entityKey = w_entityKey options, data = w_data options, timestamp = now\<rparr>
      in (Inr entity,
          st\<lparr>m_entities :=
                mapSet (w_entityType options @ '':'' @ w_entityKey options) entity (m_entities st),
              m_app := triggerWatchers (m_watchers st) (w_entityType options) entity created
                         (m_app st)\<rparr>))"

definition mock_getEntity ::
  "nat \<Rightarrow> string \<Rightarrow> string \<Rightarrow> 'h MockState \<Rightarrow> (thrown + ArkivEntity option) \<times> 'h MockState" where
  "mock_getEntity now entityType k st = (Inr (mapGet (entityType @ '':'' @ k) (m_entities st)), st)"

definition mock_deleteEntity ::
  "nat \<Rightarrow> string \<Rightarrow> string \<Rightarrow> 'h MockState \<Rightarrow> (thrown + unit) \<times> 'h MockState" where
  "mock_deleteEntity now entityType k st =
     (Inr (), st\<lparr>m_entities := mapDelete (entityType @ '':'' @ k) (m_entities st)\<rparr>)"

text \<open>
  \<open>entities.sort(compare)\<close> with \<open>compare(a, b) = (aVal > bVal ? 1 : -1) * order\<close>, as an
  insertion sort: an element moves behind the ones it compares greater than. The
  comparator never answers 0, so where two keys are equal the order ECMAScript gives is
  up to the engine; only numbers are compared here, as the client sorts on
  \<open>createdAt\<close> and \<open>expiresIn\<close> only.
\<close>

fun greaterThan :: "JsValue \<Rightarrow> JsValue \<Rightarrow> bool" where
  "greaterThan (JNumber a) (JNumber b) = (a > b)"
| "greaterThan _ _ = False"

definition compareEntities :: "string \<times> SortOrder \<Rightarrow> ArkivEntity \<Rightarrow> ArkivEntity \<Rightarrow> int" where
  "compareEntities so a b =
     (if greaterThan (getNestedValue (data a) (fst so)) (getNestedValue (data b) (fst so))
      then 1 else - 1) * (if snd so = asc then 1 else - 1)"

fun insertSorted :: "string \<times> SortOrder \<Rightarrow> ArkivEntity \<Rightarrow> ArkivEntity list \<Rightarrow> ArkivEntity list" where
  "insertSorted so x [] = [x]"
| "insertSorted so x (y # ys) =
     (if compareEntities so x y > 0 then y # insertSorted so x ys else x # y # ys)"

definition sortEntities :: "string \<times> SortOrder \<Rightarrow> ArkivEntity list \<Rightarrow> ArkivEntity list" where
  "sortEntities so es = foldr (insertSorted so) es []"

definition mock_queryEntities ::
  "nat \<Rightarrow> QueryOptions \<Rightarrow> 'h MockState \<Rightarrow> (thrown + QueryResponse) \<times> 'h MockState" where
  "mock_queryEntities now options st =
     (let matching =
            map snd (filter (\<lambda>(k, entity).
                       startsWith k (q_entityType options @ '':'')
                       \<and> matchesFiltersOpt entity (q_filters options))
                     (m_entities st));
          sorted' = (case q_sort options of None \<Rightarrow> matching | Some so \<Rightarrow> sortEntities so matching);
          lim = (case q_limit options of None \<Rightarrow> 50 | Some n \<Rightarrow> if n = 0 then 50 else n)
      in (Inr \<lparr>entities = take lim sorted',
               total = length sorted',
               nextCursor = (if length sorted' > lim then Some ''mock-cursor'' else None)\<rparr>, st))"

text \<open>
  \<open>watchEntities\<close> pushes the subscription; the unsubscribe closure it returns is
  represented by the subscription's index (unsubscribing itself is not modelled).
\<close>

definition mock_watchEntities ::
  "'h WatchEntitiesOptions \<Rightarrow> 'h MockState \<Rightarrow> (thrown + nat) \<times> 'h MockState" where
  "mock_watchEntities options st =
     (Inr (length (m_watchers st)), st\<lparr>m_watchers := m_watchers st @ [options]\<rparr>)"

definition simulateEntityUpdate :: "ArkivEntity \<Rightarrow> string \<Rightarrow> 'h MockState \<Rightarrow> 'h MockState" where
  "simulateEntityUpdate entity entityType st =
     st\<lparr>m_app := triggerWatchers (m_watchers st) entityType entity updated (m_app st)\<rparr>"

definition ArkivClientMock :: "'h MockState ArkivPublicClient" where
  "ArkivClientMock =
     \<lparr>writeEntity = mock_writeEntity, queryEntities = mock_queryEntities,
      getEntity = mock_getEntity, deleteEntity = mock_deleteEntity\<rparr>"

definition emptyMock :: "'h \<Rightarrow> 'h MockState" where
  "emptyMock h = \<lparr>m_entities = [], m_watchers = [], m_app = h\<rparr>"

text \<open>\<open>MockSigner\<close>: a fixed address and a constant signature.\<close>

definition mockSignature :: string where
  "mockSignature = ''0x'' @ replicate 130 CHR ''0''"

definition MockSigner :: "string \<Rightarrow> Signer" where
  "MockSigner a = \<lparr>getAddress = Inr a, signMessage = (\<lambda>message. Inr mockSignature)\<rparr>"

text \<open>A store every call of which rejects with the same error.\<close>

definition rejectingClient :: "thrown \<Rightarrow> unit ArkivPublicClient" where
  "rejectingClient e =
     \<lparr>writeEntity = (\<lambda>now opts s. (Inl e, s)),
      queryEntities = (\<lambda>now opts s. (Inl e, s)),
      getEntity = (\<lambda>now ty k s. (Inl e, s)),
      deleteEntity = (\<lambda>now ty k s. (Inl e, s))\<rparr>"


section \<open>Vocabulary of the properties\<close>

text \<open>
  A store answers a successful write with the data it was given (the mock does; the
  client maps whatever comes back).
\<close>

definition echoes :: "'s ArkivPublicClient \<Rightarrow> bool" where
  "echoes st =
     (\<forall>now opts s e s'. writeEntity st now opts s = (Inr e, s') \<longrightarrow> data e = w_data opts)"

fun isReadCall :: "StoreCall \<Rightarrow> bool" where
  "isReadCall (GetCall ty k) = True"
| "isReadCall (QueryCall opts) = True"
| "isReadCall (WriteCall opts) = False"
| "isReadCall (DeleteCall ty k) = False"

definition noUpperCase :: "string \<Rightarrow> bool" where
  "noUpperCase s = list_all (\<lambda>c. \<not> isUpper c) s"

text \<open>The values of the test suite (tests/ArkivRFQClient.test.ts).\<close>

definition tokenA :: TokenInfo where
  "tokenA = \<lparr>address = ''0x1111111111111111111111111111111111111111'', chainId = 1\<rparr>"

definition tokenB :: TokenInfo where
  "tokenB = \<lparr>address = ''0x2222222222222222222222222222222222222222'', chainId = 1\<rparr>"

definition testInput :: CreateRFQInput where
  "testInput =
     \<lparr>in_baseToken = tokenA, in_quoteToken = tokenB,
      in_baseAmount = ''1000000000000000000'', in_quoteAmount = ''2000000000'',
      in_expiresIn = 4600, in_minFillAmount = None, in_counterpartyRestrictions = None\<rparr>"

definition testAddress :: string where
  "testAddress = ''0x1234567890123456789012345678901234567890''"

definition testClient :: "Event list MockState ArkivRFQClient" where
  "testClient = \<lparr>arkivClient = ArkivClientMock, signer = Some (MockSigner testAddress)\<rparr>"

text \<open>A fresh mock at \<open>Date.now() = 1000000\<close>.\<close>

definition testWorld :: "Event list MockState world" where
  "testWorld = \<lparr>clock = 1000000, calls = [], store = emptyMock []\<rparr>"

definition testId :: string where
  "testId = ''0x1234567890123456789012345678901234567890-1000-k3j2h1''"

text \<open>The object \<open>createRFQ(testInput)\<close> builds there with the random suffix \<open>k3j2h1\<close>.\<close>

definition testRFQ :: RFQ where
  "testRFQ =
     [(''id'', JString testId),
      (''creator'', JString testAddress),
      (''baseToken'', tokenObject tokenA),
      (''quoteToken'', tokenObject tokenB),
      (''baseAmount'', JString ''1000000000000000000''),
      (''quoteAmount'', JString ''2000000000''),
      (''expiresIn'', JNumber 4600),
      (''status'', JString ''OPEN''),
      (''createdAt'', JNumber 1000),
      (''updatedAt'', JNumber 1000),
      (''filledAmount'', JString ''0''),
      (''fills'', JArray []),
      (''minFillAmount'', JUndefined),
      (''counterpartyRestrictions'', JUndefined)]"

text \<open>The world after \<open>createRFQ(testInput)\<close>, and half a second later.\<close>

definition createdWorld :: "Event list MockState world" where
  "createdWorld = sleep 500 (snd (createRFQ testClient ''k3j2h1'' testInput testWorld))"

definition noSignerClient :: "Event list MockState ArkivRFQClient" where
  "noSignerClient = \<lparr>arkivClient = ArkivClientMock, signer = None\<rparr>"

text \<open>The world after the creator has cancelled the RFQ, another half second later.\<close>

definition cancelledWorld :: "Event list MockState world" where
  "cancelledWorld = sleep 500 (snd (cancelRFQ testClient testId createdWorld))"

definition otherClient :: "Event list MockState ArkivRFQClient" where
  "otherClient =
     \<lparr>arkivClient = ArkivClientMock,
      signer = Some (MockSigner ''0x9999999999999999999999999999999999999999'')\<rparr>"

text \<open>The write call and the mock's contents for the test record in state \<open>d\<close>.\<close>

definition testWrite :: "JsObject \<Rightarrow> StoreCall" where
  "testWrite d =
     WriteCall \<lparr>w_entityType = ''RFQ'', w_entityKey = testId, w_data = d,
                w_signature = Some mockSignature\<rparr>"

definition testStore :: "JsObject \<Rightarrow> nat \<Rightarrow> Event list MockState" where
  "testStore d t =
     \<lparr>m_entities = [(''RFQ:'' @ testId, \<lparr>entityKey = testId, data = d, timestamp = t\<rparr>)],
      m_watchers = [], m_app = []\<rparr>"

text \<open>The update of the suite's ownership test.\<close>

definition testUpdate :: UpdateRFQInput where
  "testUpdate = [(''baseAmount'', JString ''1500000000000000000'')]"

text \<open>
  An update object with a property of its own beyond the six of the interface, as a
  variable of a wider type passed to \<open>updateRFQ\<close> carries it.
\<close>

definition wideUpdate :: UpdateRFQInput where
  "wideUpdate = [(''baseAmount'', JString ''1500000000000000000''), (''id'', JString ''other-id'')]"

text \<open>The test input with a minimum fill amount, and a signer with a checksummed address.\<close>

definition testInputMin :: CreateRFQInput where
  "testInputMin = testInput\<lparr>in_minFillAmount := Some ''500''\<rparr>"

text \<open>The test input with the minimum fill amount \<open>00\<close>.\<close>

definition testInputZero :: CreateRFQInput where
  "testInputZero = testInput\<lparr>in_minFillAmount := Some ''00''\<rparr>"

definition mixedAddress :: string where
  "mixedAddress = ''0xAbCdEf7890123456789012345678901234567890''"

definition mixedClient :: "Event list MockState ArkivRFQClient" where
  "mixedClient = \<lparr>arkivClient = ArkivClientMock, signer = Some (MockSigner mixedAddress)\<rparr>"

text \<open>The filter \<open>filterByCreator\<close> returns for a valid address.\<close>

definition creatorFilter :: "string \<Rightarrow> QueryFilters" where
  "creatorFilter a =
     \<lparr>qf_tokenPair = None, qf_chain = None, qf_priceRange = None,
      qf_creator = Some a, qf_expiration = None, qf_status = None\<rparr>"

text \<open>A subscription with the cancelled handler alone, and one with the updated handler too.\<close>

definition onlyCancelled :: "Event list WatchRFQsOptions" where
  "onlyCancelled =
     \<lparr>onCreated = None, onUpdated = None, onCancelled = Some (record_ev EvCancelled),
      onFilled = None, pollingInterval = None, wo_filters = None\<rparr>"

definition cancelledAndUpdated :: "Event list WatchRFQsOptions" where
  "cancelledAndUpdated =
     \<lparr>onCreated = None, onUpdated = Some (record_ev EvUpdated),
      onCancelled = Some (record_ev EvCancelled),
      onFilled = None, pollingInterval = None, wo_filters = None\<rparr>"

text \<open>The update notification for the cancelled test record.\<close>

definition cancelledEntity :: ArkivEntity where
  "cancelledEntity =
     \<lparr>entityKey = testId, data = setProp ''status'' (JString ''CANCELLED'') testRFQ, timestamp = 1000500\<rparr>"

text \<open>A store down with a 404, and a client over it.\<close>

definition notFound :: thrown where
  "notFound = Error ''Error'' ''Request failed with status code 404'' None"

definition downClient :: "unit ArkivRFQClient" where
  "downClient = \<lparr>arkivClient = rejectingClient notFound, signer = Some (MockSigner testAddress)\<rparr>"

definition downWorld :: "unit world" where
  "downWorld = \<lparr>clock = 1000000, calls = [], store = ()\<rparr>"

text \<open>The argument objects of the store calls, as the operations build them.\<close>

abbreviation writeOptions :: "string \<Rightarrow> RFQ \<Rightarrow> string \<Rightarrow> WriteEntityOptions" where
  "writeOptions i d sg \<equiv>
     \<lparr>w_entityType = RFQ_ENTITY_TYPE, w_entityKey = i, w_data = d, w_signature = Some sg\<rparr>"

abbreviation queryOptions ::
  "QueryFilters option \<Rightarrow> SortOptions option \<Rightarrow> PaginationOptions option \<Rightarrow> QueryOptions" where
  "queryOptions filters sort' pagination \<equiv>
     \<lparr>q_entityType = RFQ_ENTITY_TYPE, q_filters = Some (buildArkivFilters filters),
      q_sort = buildArkivSort sort',
      q_limit = Some (case pagination of
                        None \<Rightarrow> DEFAULT_PAGE_LIMIT
                      | Some p \<Rightarrow>
                          (case pg_limit p of
                             None \<Rightarrow> DEFAULT_PAGE_LIMIT
                           | Some n \<Rightarrow> if n = 0 then DEFAULT_PAGE_LIMIT else n)),
      q_cursor = (case pagination of None \<Rightarrow> None | Some p \<Rightarrow> pg_cursor p)\<rparr>"

text \<open>
  An operation's outcome \<open>res\<close> from world \<open>w\<close> is that of a store call \<open>c\<close> retried to
  exhaustion: four calls were made, each failure reached the classifier as the
  \<open>ArkivNetworkError\<close> with the fixed message \<open>msg\<close> around the cause, which it lets
  through, and the last of them is wrapped in the executor's own error.
\<close>

definition retriedToExhaustion ::
  "string \<Rightarrow> StoreCall \<Rightarrow> (thrown + 'a) \<times> 's world \<Rightarrow> 's world \<Rightarrow> bool" where
  "retriedToExhaustion msg c res w =
     (\<exists>e w'. res = (Inl (ArkivNetworkError ''Operation failed after 4 attempts''
                          (Some (ArkivNetworkError msg (Some e)))), w')
            \<and> calls w' = calls w @ [c, c, c, c]
            \<and> \<not> isNonRetryableError (ArkivNetworkError msg (Some e)))"

text \<open>A store that answers every read with the test record and rejects every other call.\<close>

definition readOnlyClient :: "thrown \<Rightarrow> unit ArkivPublicClient" where
  "readOnlyClient e =
     \<lparr>writeEntity = (\<lambda>now opts s. (Inl e, s)),
      queryEntities = (\<lambda>now opts s. (Inl e, s)),
      getEntity = (\<lambda>now ty k s.
                    (Inr (Some \<lparr>entityKey = k, data = testRFQ, timestamp = 1000000\<rparr>), s)),
      deleteEntity = (\<lambda>now ty k s. (Inl e, s))\<rparr>"

definition badRequest :: thrown where
  "badRequest = Error ''Error'' ''Request failed with status code 400'' None"

definition readOnlyTestClient :: "unit ArkivRFQClient" where
  "readOnlyTestClient =
     \<lparr>arkivClient = readOnlyClient badRequest, signer = Some (MockSigner testAddress)\<rparr>"

section \<open>Validator: amounts\<close>

lemma validateAmount_accepts_iff:
  "validateAmount s f = Inr () \<longleftrightarrow> s \<noteq> [] \<and> list_all isDigit s \<and> s \<noteq> ''0''"
  by (simp add: validateAmount_def)

lemma amountValue_snoc: "amountValue (s @ [c]) = 10 * amountValue s + digitValue c"
  by (simp add: amountValue_def)

lemma char_of_48: "char_of (48::nat) = CHR ''0''"
  by code_simp

lemma of_char_48: "c \<noteq> CHR ''0'' \<Longrightarrow> (of_char c :: nat) \<noteq> 48"
proof
  assume "(of_char c :: nat) = 48" and ne: "c \<noteq> CHR ''0''"
  then have "char_of (of_char c :: nat) = char_of (48::nat)" by simp
  then show False using ne by (simp add: char_of_48)
qed

lemma digitValue_pos: "isDigit c \<Longrightarrow> c \<noteq> CHR ''0'' \<Longrightarrow> 0 < digitValue c"
  unfolding isDigit_def digitValue_def using of_char_48[of c] by auto

text \<open>An accepted amount that does not start with the digit 0 denotes a positive integer.\<close>

lemma amountValue_pos:
  "s \<noteq> [] \<Longrightarrow> list_all isDigit s \<Longrightarrow> hd s \<noteq> CHR ''0'' \<Longrightarrow> 0 < amountValue s"
proof (induction s rule: rev_induct)
  case Nil
  then show ?case by simp
next
  case (snoc c s)
  show ?case
  proof (cases "s = []")
    case True
    from snoc.prems have "isDigit c" "c \<noteq> CHR ''0''" using True by simp_all
    then have "0 < digitValue c" by (rule digitValue_pos)
    then show ?thesis using True by (simp add: amountValue_def)
  next
    case False
    with snoc have "0 < amountValue s" by simp
    then show ?thesis by (simp add: amountValue_snoc)
  qed
qed

text \<open>
  C4. \<open>validateAmount\<close> accepts exactly the non-empty digit strings other than \<open>"0"\<close>
  (\<open>validateAmount_accepts_iff\<close>), but not every accepted string denotes a strictly
  positive integer: \<open>"00"\<close> is a non-empty digit string, is not the literal \<open>"0"\<close>, is
  accepted, and denotes zero. The check the source announces as "must be greater than
  zero" compares with the one literal \<open>"0"\<close> only.
\<close>

theorem validateAmount_accepts_zero:
  "validateAmount ''00'' ''baseAmount'' = Inr () \<and> amountValue ''00'' = 0
   \<and> validateAmount ''0'' ''baseAmount''
       = Inl (ValidationError ''baseAmount must be greater than zero'')"
  by (simp add: validateAmount_def isDigit_def amountValue_def digitValue_def)


section \<open>Retry executor\<close>

lemma sleep_store [simp]: "store (sleep d w) = store w"
  by (simp add: sleep_def)

lemma sleep_calls [simp]: "calls (sleep d w) = calls w"
  by (simp add: sleep_def)

lemma withRetry_loop_success:
  "fn w = (Inr v, w') \<Longrightarrow> attempt \<le> maxRetries cfg \<Longrightarrow>
   withRetry_loop fn cfg attempt delay lastError w = (Inr v, w')"
  by (simp add: withRetry_loop.simps)

lemma withRetry_loop_retry:
  "fn w = (Inl e, w') \<Longrightarrow> attempt < maxRetries cfg \<Longrightarrow> \<not> isNonRetryableError e \<Longrightarrow>
   withRetry_loop fn cfg attempt delay lastError w =
   withRetry_loop fn cfg (Suc attempt) (min (delay * backoffMultiplier cfg) (maxDelay cfg))
     (Some e) (sleep delay w')"
  by (subst withRetry_loop.simps) simp

lemma withRetry_loop_abort:
  "fn w = (Inl e, w') \<Longrightarrow> attempt \<le> maxRetries cfg \<Longrightarrow>
   attempt = maxRetries cfg \<or> isNonRetryableError e \<Longrightarrow>
   withRetry_loop fn cfg attempt delay lastError w = exhausted cfg (Some e) w'"
  by (subst withRetry_loop.simps) auto

lemma exhausted_eq: "exhausted cfg le w = (r, w') \<longleftrightarrow>
   w' = w \<and> r = Inl (ArkivNetworkError
       (''Operation failed after '' @ numberToString (maxRetries cfg + 1) @ '' attempts'') le)"
  by (auto simp: exhausted_def throw_def)

lemma withRetry_loop_beyond:
  "\<not> attempt \<le> maxRetries cfg \<Longrightarrow>
   withRetry_loop fn cfg attempt delay lastError w = exhausted cfg lastError w"
  by (subst withRetry_loop.simps) simp

text \<open>A successful retried call is the success of one of its attempts.\<close>

lemma withRetry_loop_Inr:
  "withRetry_loop fn cfg attempt delay lastError w = (Inr v, w') \<Longrightarrow> \<exists>u. fn u = (Inr v, w')"
proof (induction fn cfg attempt delay lastError w rule: withRetry_loop.induct)
  case (1 fn cfg attempt delay lastError w)
  show ?case
  proof (cases "attempt \<le> maxRetries cfg")
    case False
    with "1.prems" show ?thesis
      by (simp add: withRetry_loop_beyond exhausted_eq)
  next
    case le: True
    obtain r w1 where f: "fn w = (r, w1)" by (cases "fn w")
    show ?thesis
    proof (cases r)
      case (Inr x)
      with f le "1.prems" show ?thesis
        by (auto simp: withRetry_loop_success)
    next
      case (Inl e)
      show ?thesis
      proof (cases "attempt = maxRetries cfg \<or> isNonRetryableError e")
        case True
        with f Inl le "1.prems" show ?thesis
          by (simp add: withRetry_loop_abort exhausted_eq)
      next
        case False
        with f Inl le "1.prems"
        have "withRetry_loop fn cfg (attempt + 1)
                (min (delay * backoffMultiplier cfg) (maxDelay cfg)) (Some e) (sleep delay w1)
              = (Inr v, w')"
          by (simp add: withRetry_loop_retry)
        with "1.IH"[OF le f[symmetric] Inl] False
        show ?thesis by auto
      qed
    qed
  qed
qed

text \<open>
  A relation between worlds that every attempt and every sleep respects holds between
  the world before and after the retried call.
\<close>

lemma withRetry_loop_rel:
  assumes refl: "\<And>u. R u u" and trans: "\<And>a b c. R a b \<Longrightarrow> R b c \<Longrightarrow> R a c"
    and step: "\<And>u r u'. fn u = (r, u') \<Longrightarrow> R u u'" and slp: "\<And>d u. R u (sleep d u)"
  shows "withRetry_loop fn cfg attempt delay lastError w = (r, w') \<Longrightarrow> R w w'"
  using step
proof (induction fn cfg attempt delay lastError w rule: withRetry_loop.induct)
  case (1 fn cfg attempt delay lastError w)
  show ?case
  proof (cases "attempt \<le> maxRetries cfg")
    case False
    with "1.prems" show ?thesis
      by (simp add: withRetry_loop_beyond exhausted_eq refl)
  next
    case le: True
    obtain x w1 where f: "fn w = (x, w1)" by (cases "fn w")
    have R1: "R w w1" using "1.prems"(2) f by blast
    show ?thesis
    proof (cases x)
      case (Inr v)
      with f le "1.prems"(1) R1 show ?thesis
        by (auto simp: withRetry_loop_success)
    next
      case (Inl e)
      show ?thesis
      proof (cases "attempt = maxRetries cfg \<or> isNonRetryableError e")
        case True
        with f Inl le "1.prems"(1) R1 show ?thesis
          by (simp add: withRetry_loop_abort exhausted_eq)
      next
        case False
        with f Inl le "1.prems"(1)
        have "withRetry_loop fn cfg (attempt + 1)
                (min (delay * backoffMultiplier cfg) (maxDelay cfg)) (Some e) (sleep delay w1)
              = (r, w')"
          by (simp add: withRetry_loop_retry)
        with "1.IH"[OF le f[symmetric] Inl] False "1.prems"(2)
        have "R (sleep delay w1) w'" by blast
        with R1 slp[of w1 delay] show ?thesis by (blast intro: trans)
      qed
    qed
  qed
qed

lemma withRetry_loop_calls:
  assumes step: "\<And>u r u'. fn u = (r, u') \<Longrightarrow> \<exists>cs. calls u' = calls u @ cs \<and> list_all P cs"
  shows "withRetry_loop fn cfg attempt delay lastError w = (r, w') \<Longrightarrow>
         \<exists>cs. calls w' = calls w @ cs \<and> list_all P cs"
proof (rule withRetry_loop_rel[where R = "\<lambda>u u'. \<exists>cs. calls u' = calls u @ cs \<and> list_all P cs"
        and fn = fn])
  show "\<And>u. \<exists>cs. calls u = calls u @ cs \<and> list_all P cs" by simp
  show "\<And>a b c. \<exists>cs. calls b = calls a @ cs \<and> list_all P cs \<Longrightarrow>
         \<exists>cs. calls c = calls b @ cs \<and> list_all P cs \<Longrightarrow>
         \<exists>cs. calls c = calls a @ cs \<and> list_all P cs"
    by (metis append.assoc list_all_append)
  show "\<And>u r u'. fn u = (r, u') \<Longrightarrow> \<exists>cs. calls u' = calls u @ cs \<and> list_all P cs"
    by (rule step)
  show "\<And>d u. \<exists>cs. calls (sleep d u) = calls u @ cs \<and> list_all P cs" by simp
qed

lemma isError_ValidationError_nonretry:
  "isError e ''ValidationError'' \<Longrightarrow> isNonRetryableError e"
  by (cases e) simp_all

lemma retry_twice_then_ok:
  assumes b0: "behaviour 0 = Inl e0" and b1: "behaviour 1 = Inl e1" and b2: "behaviour 2 = Inr v"
    and r0: "\<not> isNonRetryableError e0" and r1: "\<not> isNonRetryableError e1"
    and m: "maxRetries cfg = 3" and s: "store w = 0"
  shows "\<exists>w'. withRetryWith (countingOp behaviour) cfg w = (Inr v, w') \<and> store w' = 3"
proof -
  let ?fn = "countingOp behaviour"
  define d1 where "d1 = min (initialDelay cfg * backoffMultiplier cfg) (maxDelay cfg)"
  obtain w1 where 1: "?fn w = (Inl e0, w1)" and s1: "store w1 = 1"
    using b0 s by (simp add: countingOp_def)
  obtain w2 where 2: "?fn (sleep (initialDelay cfg) w1) = (Inl e1, w2)" and s2: "store w2 = 2"
    using b1 s1 by (simp add: countingOp_def)
  obtain w3 where 3: "?fn (sleep d1 w2) = (Inr v, w3)" and s3: "store w3 = 3"
    using b2 s2 by (simp add: countingOp_def)
  have "withRetryWith ?fn cfg w =
        withRetry_loop ?fn cfg (Suc 0) d1 (Some e0) (sleep (initialDelay cfg) w1)"
    unfolding withRetryWith_def d1_def using 1 r0 m by (simp add: withRetry_loop_retry)
  also have "\<dots> = withRetry_loop ?fn cfg (Suc (Suc 0))
        (min (d1 * backoffMultiplier cfg) (maxDelay cfg)) (Some e1) (sleep d1 w2)"
    using 2 r1 m by (simp add: withRetry_loop_retry)
  also have "\<dots> = (Inr v, w3)"
    using 3 m by (simp add: withRetry_loop_success)
  finally show ?thesis using s3 by simp
qed

lemma retry_validation_once:
  assumes v: "\<forall>k. \<exists>e. behaviour k = Inl e \<and> isError e ''ValidationError''"
  shows "\<exists>e. behaviour (store w) = Inl e \<and>
     withRetryWith (countingOp behaviour) cfg w =
       (Inl (ArkivNetworkError
          (''Operation failed after '' @ numberToString (maxRetries cfg + 1) @ '' attempts'')
          (Some e)),
        w\<lparr>store := Suc (store w)\<rparr>)"
proof -
  from v obtain e where e: "behaviour (store w) = Inl e" and ve: "isError e ''ValidationError''"
    by blast
  have "countingOp behaviour w = (Inl e, w\<lparr>store := Suc (store w)\<rparr>)"
    using e by (simp add: countingOp_def)
  then have "withRetryWith (countingOp behaviour) cfg w
             = exhausted cfg (Some e) (w\<lparr>store := Suc (store w)\<rparr>)"
    unfolding withRetryWith_def
    using isError_ValidationError_nonretry[OF ve] by (simp add: withRetry_loop_abort)
  then show ?thesis using e by (simp add: exhausted_def throw_def)
qed

text \<open>
  C5. With \<open>maxRetries = 3\<close>, an operation whose first two invocations fail (with
  errors the executor retries) and whose third succeeds makes the wrapped call succeed
  with that value after exactly 3 invocations. An operation that always fails with a
  \<open>ValidationError\<close> is invoked exactly once, whatever the configuration, and the
  executor fails with its network error without retrying.
\<close>

theorem withRetry_invocations:
  "(behaviour 0 = Inl e0 \<and> behaviour 1 = Inl e1 \<and> behaviour 2 = Inr v \<and>
    \<not> isNonRetryableError e0 \<and> \<not> isNonRetryableError e1 \<and> maxRetries cfg = 3 \<and> store w = 0
    \<longrightarrow> (\<exists>w'. withRetryWith (countingOp behaviour) cfg w = (Inr v, w') \<and> store w' = 3))
   \<and>
   ((\<forall>k. \<exists>e. failing k = Inl e \<and> isError e ''ValidationError'')
    \<longrightarrow> (\<exists>e w'. withRetryWith (countingOp failing) cfg' u = (Inl e, w') \<and>
          isError e ''ArkivNetworkError'' \<and> store w' = store u + 1))"
  using retry_twice_then_ok[of behaviour e0 e1 v cfg w] retry_validation_once[of failing u cfg']
  by (auto simp: ArkivNetworkError_def)

theorem withRetry_invocations_witness:
  "(\<exists>w'. withRetryWith (countingOp failsTwiceThenSucceeds) DEFAULT_RETRY_CONFIG
           \<lparr>clock = 0, calls = [], store = 0\<rparr> = (Inr ''success'', w') \<and> store w' = 3)
   \<and> (\<exists>e w'. withRetryWith (countingOp alwaysFailsValidation) DEFAULT_RETRY_CONFIG
           \<lparr>clock = 0, calls = [], store = 0\<rparr> = (Inl e, w') \<and>
          isError e ''ArkivNetworkError'' \<and> store w' = 1)"
proof -
  have r: "\<not> isNonRetryableError (Error ''Error'' ''Temporary failure'' None)"
    by code_simp
  show ?thesis
    using r withRetry_invocations[of failsTwiceThenSucceeds
        "Error ''Error'' ''Temporary failure'' None" "Error ''Error'' ''Temporary failure'' None"
        "''success''" DEFAULT_RETRY_CONFIG "\<lparr>clock = 0, calls = [], store = 0\<rparr>"
        alwaysFailsValidation DEFAULT_RETRY_CONFIG "\<lparr>clock = 0, calls = [], store = 0\<rparr>"]
    by (simp add: failsTwiceThenSucceeds_def alwaysFailsValidation_def DEFAULT_RETRY_CONFIG_def
        ValidationError_def)
qed


section \<open>Objects\<close>

lemma getProp_setProp: "getProp (setProp k v ps) k' = (if k' = k then v else getProp ps k')"
  by (induction ps) auto

lemma keys_setProp:
  "map fst (setProp k v ps) = (if k \<in> fst ` set ps then map fst ps else map fst ps @ [k])"
  by (induction ps) force+

lemma setProp_fresh: "k \<notin> fst ` set ps \<Longrightarrow> setProp k v ps = ps @ [(k, v)]"
  by (induction ps) auto

lemma assign_Nil: "assign t [] = t"
  by (simp add: assign_def)

lemma assign_Cons: "assign t ((k, v) # src) = assign (setProp k v t) src"
  by (simp add: assign_def)

lemma getProp_assign_other: "k \<notin> fst ` set src \<Longrightarrow> getProp (assign t src) k = getProp t k"
  by (induction src arbitrary: t) (auto simp: assign_Nil assign_Cons getProp_setProp)

lemma assign_fresh: "distinct (map fst (t @ src)) \<Longrightarrow> assign t src = t @ src"
proof (induction src arbitrary: t)
  case Nil
  then show ?case by (simp add: assign_Nil)
next
  case (Cons p src)
  obtain k v where p: "p = (k, v)" by (cases p)
  from Cons.prems have fresh: "k \<notin> fst ` set t" by (auto simp: p)
  from Cons.prems have "distinct (map fst ((t @ [(k, v)]) @ src))" by (auto simp: p)
  from Cons.IH[OF this] show ?case by (simp add: p assign_Cons setProp_fresh[OF fresh])
qed

lemma assign_copy: "distinct (map fst ps) \<Longrightarrow> assign [] ps = ps"
  using assign_fresh[of "[]" ps] by simp

lemma getProp_map_keys:
  "getProp (map (\<lambda>k. (k, f k)) ks) k = (if k \<in> set ks then f k else JUndefined)"
  by (induction ks) auto

lemma rebuild_object: "distinct (map fst d) \<Longrightarrow> map (\<lambda>k. (k, getProp d k)) (map fst d) = d"
proof (induction d)
  case Nil
  then show ?case by simp
next
  case (Cons p d)
  obtain k v where p: "p = (k, v)" by (cases p)
  from Cons.prems have k: "k \<notin> fst ` set d" and dd: "distinct (map fst d)" by (auto simp: p)
  have eq: "map (\<lambda>k'. (k', getProp ((k, v) # d) k')) (map fst d)
            = map (\<lambda>k'. (k', getProp d k')) (map fst d)"
    using k by (intro map_cong) auto
  have "map (\<lambda>k'. (k', getProp (p # d) k')) (map fst (p # d))
          = (k, v) # map (\<lambda>k'. (k', getProp ((k, v) # d) k')) (map fst d)"
    unfolding p by (simp del: map_map)
  also have "\<dots> = (k, v) # map (\<lambda>k'. (k', getProp d k')) (map fst d)"
    by (simp only: eq)
  also have "\<dots> = p # d"
    by (simp only: p Cons.IH[OF dd])
  finally show ?case .
qed

lemma distinct_rfqKeys: "distinct rfqKeys"
  by (simp add: rfqKeys_def)

lemma entityToRFQ_map: "entityToRFQ e = map (\<lambda>k. (k, getProp (data e) k)) rfqKeys"
  by (simp add: entityToRFQ_def rfqKeys_def)

lemma keys_entityToRFQ: "map fst (entityToRFQ e) = rfqKeys"
  by (simp add: entityToRFQ_map comp_def)

lemma getProp_entityToRFQ:
  "getProp (entityToRFQ e) k = (if k \<in> set rfqKeys then getProp (data e) k else JUndefined)"
  by (simp add: entityToRFQ_map getProp_map_keys)

lemma entityToRFQ_shape: "map fst (data e) = rfqKeys \<Longrightarrow> entityToRFQ e = data e"
  using rebuild_object[of "data e"] distinct_rfqKeys by (simp add: entityToRFQ_map)

lemma keys_rfqData: "map fst (rfqData i c now input) = rfqKeys"
  by (simp add: rfqData_def rfqKeys_def)

lemma updatedData_shape:
  "map fst ex = rfqKeys \<Longrightarrow>
   updatedData ex updates now = setProp ''updatedAt'' (JNumber (int now)) (assign ex updates)"
  using assign_copy[of ex] distinct_rfqKeys by (simp add: updatedData_def)

lemma getProp_updatedData:
  "map fst ex = rfqKeys \<Longrightarrow>
   getProp (updatedData ex updates now) k =
     (if k = ''updatedAt'' then JNumber (int now) else getProp (assign ex updates) k)"
  by (simp add: updatedData_shape getProp_setProp)


section \<open>The test scenario, evaluated\<close>

lemma withRetry_first_success: "fn w = (Inr v, w') \<Longrightarrow> withRetry fn w = (Inr v, w')"
  by (simp add: withRetry_def withRetryWith_def withRetry_loop_success)

lemma keys_testRFQ: "map fst testRFQ = rfqKeys"
  by (simp add: testRFQ_def rfqKeys_def)

lemma entityToRFQ_testRFQ [simp]: "entityToRFQ \<lparr>entityKey = k, data = testRFQ, timestamp = t\<rparr> = testRFQ"
  by (simp add: entityToRFQ_shape keys_testRFQ)

lemma toLowerCase_testAddress: "toLowerCase testAddress = testAddress"
  by code_simp

lemma numberToString_1000: "numberToString 1000 = ''1000''"
  by code_simp

lemma testId_eq: "generateRFQId testAddress 1000 ''k3j2h1'' = testId"
  unfolding generateRFQId_def toLowerCase_testAddress numberToString_1000
  by (simp add: testAddress_def testId_def)

lemma validate_testInput: "validateCreateRFQInput 1000 testInput = Inr ()"
  by (simp add: validateCreateRFQInput_def validateTokenInfo_def validateAddress_def
      isHexDigit_def tokenA_def tokenB_def testInput_def validateAmount_def isDigit_def
      validateExpiration_def)

lemma rfqData_testInput: "rfqData testId testAddress 1000 testInput = testRFQ"
  by (simp add: rfqData_def testInput_def testRFQ_def orElse_def optionalString_def
      optionalStrings_def)

lemma validate_testId: "validateRFQId testId = Inr ()"
  by (simp add: validateRFQId_def trim_def isSpace_def testId_def)

lemma getSignerAddress_testClient: "getSignerAddress testClient = Inr testAddress"
  by (simp add: getSignerAddress_def testClient_def MockSigner_def)

lemma signRFQData_testClient: "signRFQData testClient d = Inr mockSignature"
  by (simp add: signRFQData_def testClient_def MockSigner_def)

lemma nowSeconds_testWorld: "nowSeconds testWorld = 1000"
  by (simp add: nowSeconds_def testWorld_def)

lemma createRFQ_test:
  "createRFQ testClient ''k3j2h1'' testInput testWorld =
     (Inr testRFQ,
      \<lparr>clock = 1000000, calls = [testWrite testRFQ], store = testStore testRFQ 1000000\<rparr>)"
proof -
  have a: "createRFQ_attempt testClient testId testRFQ mockSignature testWorld =
     (Inr testRFQ,
      \<lparr>clock = 1000000, calls = [testWrite testRFQ], store = testStore testRFQ 1000000\<rparr>)"
    by (simp add: createRFQ_attempt_def call_writeEntity_def testClient_def ArkivClientMock_def
        mock_writeEntity_def testWorld_def emptyMock_def RFQ_ENTITY_TYPE_def Let_def
        testWrite_def testStore_def)
  show ?thesis
    by (simp add: createRFQ_def nowSeconds_testWorld validate_testInput getSignerAddress_testClient
        signRFQData_testClient testId_eq rfqData_testInput
        withRetry_first_success[where fn = "createRFQ_attempt testClient testId testRFQ mockSignature", OF a])
qed

lemma createdWorld_eq:
  "createdWorld = \<lparr>clock = 1000500, calls = [testWrite testRFQ], store = testStore testRFQ 1000000\<rparr>"
  by (simp add: createdWorld_def createRFQ_test sleep_def)

lemma getRFQ_mock:
  "validateRFQId testId = Inr () \<Longrightarrow> map fst d = rfqKeys \<Longrightarrow>
   getRFQ \<lparr>arkivClient = ArkivClientMock, signer = sg\<rparr> testId
      \<lparr>clock = t, calls = cs, store = testStore d t0\<rparr> =
   (Inr (Some d), \<lparr>clock = t, calls = cs @ [GetCall ''RFQ'' testId], store = testStore d t0\<rparr>)"
proof -
  let ?cl = "\<lparr>arkivClient = ArkivClientMock, signer = sg\<rparr> :: Event list MockState ArkivRFQClient"
  let ?w = "\<lparr>clock = t, calls = cs, store = testStore d t0\<rparr>"
  assume v: "validateRFQId testId = Inr ()" and k: "map fst d = rfqKeys"
  have a: "getRFQ_attempt ?cl testId ?w =
     (Inr (Some d), \<lparr>clock = t, calls = cs @ [GetCall ''RFQ'' testId], store = testStore d t0\<rparr>)"
    by (simp add: getRFQ_attempt_def call_getEntity_def ArkivClientMock_def mock_getEntity_def
        RFQ_ENTITY_TYPE_def testStore_def entityToRFQ_shape k)
  show ?thesis
    by (simp add: getRFQ_def v withRetry_first_success[where fn = "getRFQ_attempt ?cl testId", OF a])
qed



section \<open>Lifecycle operations without a signer\<close>

lemma getRFQ_attempt_calls:
  "getRFQ_attempt cl i u = (r, u') \<Longrightarrow> \<exists>cs. calls u' = calls u @ cs \<and> list_all isReadCall cs"
  by (auto simp: getRFQ_attempt_def call_getEntity_def split: prod.splits sum.splits)

lemma getRFQ_calls:
  "getRFQ cl i w = (r, w') \<Longrightarrow> \<exists>cs. calls w' = calls w @ cs \<and> list_all isReadCall cs"
  unfolding getRFQ_def withRetry_def withRetryWith_def
  by (auto split: sum.splits dest!: withRetry_loop_calls[where P = isReadCall, rotated] getRFQ_attempt_calls)

lemma getRFQ_valid: "getRFQ cl i w = (Inr x, w') \<Longrightarrow> validateRFQId i = Inr ()"
  by (auto simp: getRFQ_def split: sum.splits)

lemma getSignerAddress_None:
  "signer cl = None \<Longrightarrow>
   getSignerAddress cl = Inl (SignatureError ''No signer configured. Call setSigner() first.'' None)"
  by (simp add: getSignerAddress_def)

lemma updateRFQ_no_signer:
  assumes ns: "signer cl = None"
  shows "\<exists>e w'. updateRFQ cl i upd w = (Inl e, w')
           \<and> (\<exists>cs. calls w' = calls w @ cs \<and> list_all isReadCall cs)
           \<and> (\<forall>ex. fst (getRFQ cl i w) = Inr (Some ex) \<longrightarrow>
                 w' = snd (getRFQ cl i w) \<and>
                 e = SignatureError ''No signer configured. Call setSigner() first.'' None)
           \<and> (fst (getRFQ cl i w) = Inr None \<longrightarrow> e = RFQNotFoundError i)
           \<and> (\<forall>e'. fst (getRFQ cl i w) = Inl e' \<longrightarrow> e = e')"
proof -
  obtain r w1 where g: "getRFQ cl i w = (r, w1)" by (cases "getRFQ cl i w")
  from getRFQ_calls[OF g] obtain cs where cs: "calls w1 = calls w @ cs" "list_all isReadCall cs"
    by blast
  show ?thesis
  proof (cases "validateRFQId i")
    case (Inl e)
    then show ?thesis using g by (auto simp: updateRFQ_def getRFQ_def)
  next
    case (Inr u)
    then show ?thesis using g cs getSignerAddress_None[OF ns]
      by (auto simp: updateRFQ_def split: sum.splits option.splits)
  qed
qed

lemma deleteRFQ_no_signer:
  assumes ns: "signer cl = None"
  shows "\<exists>e w'. deleteRFQ cl i w = (Inl e, w')
           \<and> (\<exists>cs. calls w' = calls w @ cs \<and> list_all isReadCall cs)
           \<and> (\<forall>ex. fst (getRFQ cl i w) = Inr (Some ex) \<longrightarrow>
                 w' = snd (getRFQ cl i w) \<and>
                 e = SignatureError ''No signer configured. Call setSigner() first.'' None)
           \<and> (fst (getRFQ cl i w) = Inr None \<longrightarrow> e = RFQNotFoundError i)
           \<and> (\<forall>e'. fst (getRFQ cl i w) = Inl e' \<longrightarrow> e = e')"
proof -
  obtain r w1 where g: "getRFQ cl i w = (r, w1)" by (cases "getRFQ cl i w")
  from getRFQ_calls[OF g] obtain cs where cs: "calls w1 = calls w @ cs" "list_all isReadCall cs"
    by blast
  show ?thesis
  proof (cases "validateRFQId i")
    case (Inl e)
    then show ?thesis using g by (auto simp: deleteRFQ_def getRFQ_def)
  next
    case (Inr u)
    then show ?thesis using g cs getSignerAddress_None[OF ns]
      by (auto simp: deleteRFQ_def split: sum.splits option.splits)
  qed
qed

lemma createRFQ_no_signer:
  assumes ns: "signer cl = None"
  shows "createRFQ cl random input w =
     (case validateCreateRFQInput (nowSeconds w) input of
        Inl e \<Rightarrow> (Inl e, w)
      | Inr _ \<Rightarrow> (Inl (SignatureError ''No signer configured. Call setSigner() first.'' None), w))"
  using getSignerAddress_None[OF ns] by (simp add: createRFQ_def split: sum.splits)


lemma validate_missing: "validateRFQId ''missing'' = Inr ()"
  by (simp add: validateRFQId_def trim_def isSpace_def)

lemma getRFQ_missing:
  "getRFQ noSignerClient ''missing'' testWorld =
     (Inr None, testWorld\<lparr>calls := [GetCall ''RFQ'' ''missing'']\<rparr>)"
proof -
  have a: "getRFQ_attempt noSignerClient ''missing'' testWorld =
     (Inr None, testWorld\<lparr>calls := [GetCall ''RFQ'' ''missing'']\<rparr>)"
    by (simp add: getRFQ_attempt_def call_getEntity_def noSignerClient_def ArkivClientMock_def
        mock_getEntity_def RFQ_ENTITY_TYPE_def testWorld_def emptyMock_def)
  show ?thesis
    by (simp add: getRFQ_def validate_missing
        withRetry_first_success[where fn = "getRFQ_attempt noSignerClient ''missing''", OF a])
qed

lemma getRFQ_created_noSigner:
  "getRFQ noSignerClient testId createdWorld =
     (Inr (Some testRFQ),
      \<lparr>clock = 1000500, calls = [testWrite testRFQ, GetCall ''RFQ'' testId],
       store = testStore testRFQ 1000000\<rparr>)"
  unfolding noSignerClient_def createdWorld_eq
  using getRFQ_mock[OF validate_testId keys_testRFQ, of None 1000500 "[testWrite testRFQ]" 1000000]
  by simp

text \<open>
  C1, as stated, fails. With no signer configured, \<open>deleteRFQ\<close> of an id the store
  does not hold fails with \<open>RFQNotFoundError\<close>, not \<open>SignatureError\<close>, after a
  \<open>getEntity\<close> call; and \<open>updateRFQ\<close> of a stored RFQ has called \<open>getEntity\<close> before it
  fails.
\<close>

theorem no_signer_counterexample:
  "fst (deleteRFQ noSignerClient ''missing'' testWorld) = Inl (RFQNotFoundError ''missing'')
   \<and> \<not> isError (RFQNotFoundError ''missing'') ''SignatureError''
   \<and> calls (snd (deleteRFQ noSignerClient ''missing'' testWorld)) = [GetCall ''RFQ'' ''missing'']
   \<and> calls (snd (updateRFQ noSignerClient testId cancelUpdate createdWorld))
       = calls createdWorld @ [GetCall ''RFQ'' testId]"
proof -
  have d: "deleteRFQ noSignerClient ''missing'' testWorld =
      (Inl (RFQNotFoundError ''missing''), testWorld\<lparr>calls := [GetCall ''RFQ'' ''missing'']\<rparr>)"
    by (simp add: deleteRFQ_def validate_missing getRFQ_missing)
  have u: "updateRFQ noSignerClient testId cancelUpdate createdWorld =
      (Inl (SignatureError ''No signer configured. Call setSigner() first.'' None),
       \<lparr>clock = 1000500, calls = [testWrite testRFQ, GetCall ''RFQ'' testId],
        store = testStore testRFQ 1000000\<rparr>)"
    by (simp add: updateRFQ_def validate_testId getRFQ_created_noSigner getSignerAddress_def
        noSignerClient_def[symmetric])
       (simp add: noSignerClient_def)
  show ?thesis
    using d u by (simp add: createdWorld_eq RFQNotFoundError_def)
qed


lemma cancelRFQ_no_signer:
  assumes ns: "signer cl = None"
  shows "\<exists>e w'. cancelRFQ cl i w = (Inl e, w')
           \<and> (\<exists>cs. calls w' = calls w @ cs \<and> list_all isReadCall cs)
           \<and> (\<forall>ex. fst (getRFQ cl i w) = Inr (Some ex) \<longrightarrow>
                 w' = snd (getRFQ cl i w) \<and>
                 e = SignatureError ''No signer configured. Call setSigner() first.'' None)
           \<and> (fst (getRFQ cl i w) = Inr None \<longrightarrow> e = RFQNotFoundError i)
           \<and> (\<forall>e'. fst (getRFQ cl i w) = Inl e' \<longrightarrow> e = e')"
  unfolding cancelRFQ_def by (rule updateRFQ_no_signer[OF ns])

text \<open>
  C1, amended. With no signer configured: \<open>createRFQ\<close> on a valid input fails with
  \<open>SignatureError\<close> and leaves the world as it was (no store call at all);
  \<open>updateRFQ\<close>, \<open>cancelRFQ\<close> and \<open>deleteRFQ\<close> never succeed and never issue a
  \<open>writeEntity\<close> or \<open>deleteEntity\<close> call: the only store calls they make are the reads
  of \<open>getRFQ\<close>, and when that read yields a record they fail with \<open>SignatureError\<close> in
  the world the read left; when it yields none they fail with \<open>RFQNotFoundError\<close>, and
  when it fails, with its error.
\<close>

theorem no_signer_mutations:
  assumes ns: "signer cl = None"
  shows "(validateCreateRFQInput (nowSeconds w) input = Inr () \<longrightarrow>
            createRFQ cl random input w =
              (Inl (SignatureError ''No signer configured. Call setSigner() first.'' None), w))
       \<and> (\<exists>e w'. updateRFQ cl i upd w = (Inl e, w')
           \<and> (\<exists>cs. calls w' = calls w @ cs \<and> list_all isReadCall cs)
           \<and> (\<forall>ex. fst (getRFQ cl i w) = Inr (Some ex) \<longrightarrow>
                 w' = snd (getRFQ cl i w) \<and>
                 e = SignatureError ''No signer configured. Call setSigner() first.'' None)
           \<and> (fst (getRFQ cl i w) = Inr None \<longrightarrow> e = RFQNotFoundError i)
           \<and> (\<forall>e'. fst (getRFQ cl i w) = Inl e' \<longrightarrow> e = e'))
       \<and> (\<exists>e w'. cancelRFQ cl i w = (Inl e, w')
           \<and> (\<exists>cs. calls w' = calls w @ cs \<and> list_all isReadCall cs)
           \<and> (\<forall>ex. fst (getRFQ cl i w) = Inr (Some ex) \<longrightarrow>
                 w' = snd (getRFQ cl i w) \<and>
                 e = SignatureError ''No signer configured. Call setSigner() first.'' None)
           \<and> (fst (getRFQ cl i w) = Inr None \<longrightarrow> e = RFQNotFoundError i)
           \<and> (\<forall>e'. fst (getRFQ cl i w) = Inl e' \<longrightarrow> e = e'))
       \<and> (\<exists>e w'. deleteRFQ cl i w = (Inl e, w')
           \<and> (\<exists>cs. calls w' = calls w @ cs \<and> list_all isReadCall cs)
           \<and> (\<forall>ex. fst (getRFQ cl i w) = Inr (Some ex) \<longrightarrow>
                 w' = snd (getRFQ cl i w) \<and>
                 e = SignatureError ''No signer configured. Call setSigner() first.'' None)
           \<and> (fst (getRFQ cl i w) = Inr None \<longrightarrow> e = RFQNotFoundError i)
           \<and> (\<forall>e'. fst (getRFQ cl i w) = Inl e' \<longrightarrow> e = e'))"
proof (intro conjI)
  show "validateCreateRFQInput (nowSeconds w) input = Inr () \<longrightarrow>
            createRFQ cl random input w =
              (Inl (SignatureError ''No signer configured. Call setSigner() first.'' None), w)"
    by (simp add: createRFQ_no_signer[OF ns])
qed (rule updateRFQ_no_signer[OF ns] cancelRFQ_no_signer[OF ns] deleteRFQ_no_signer[OF ns])+

theorem no_signer_mutations_witness:
  "signer noSignerClient = None
   \<and> createRFQ noSignerClient ''k3j2h1'' testInput testWorld =
       (Inl (SignatureError ''No signer configured. Call setSigner() first.'' None), testWorld)
   \<and> fst (cancelRFQ noSignerClient testId createdWorld) =
       Inl (SignatureError ''No signer configured. Call setSigner() first.'' None)
   \<and> fst (deleteRFQ noSignerClient testId createdWorld) =
       Inl (SignatureError ''No signer configured. Call setSigner() first.'' None)
   \<and> calls (snd (deleteRFQ noSignerClient testId createdWorld)) =
       [testWrite testRFQ, GetCall ''RFQ'' testId]"
proof -
  have ns: "signer noSignerClient = None" by (simp add: noSignerClient_def)
  have v: "validateCreateRFQInput (nowSeconds testWorld) testInput = Inr ()"
    by (simp add: nowSeconds_testWorld validate_testInput)
  show ?thesis
    using no_signer_mutations[OF ns, of testWorld testInput "''k3j2h1''" testId cancelUpdate]
      no_signer_mutations[OF ns, of createdWorld testInput "''k3j2h1''" testId cancelUpdate]
      ns v getRFQ_created_noSigner
    by auto
qed



section \<open>Successful updates\<close>

lemma withRetry_Inr: "withRetry fn w = (Inr v, w') \<Longrightarrow> \<exists>u. fn u = (Inr v, w')"
  unfolding withRetry_def withRetryWith_def by (rule withRetry_loop_Inr)

lemma getRFQ_shape:
  assumes "getRFQ cl i w = (Inr (Some ex), w1)"
  shows "map fst ex = rfqKeys"
proof -
  from assms have "withRetry (getRFQ_attempt cl i) w = (Inr (Some ex), w1)"
    by (auto simp: getRFQ_def split: sum.splits)
  then obtain u where "getRFQ_attempt cl i u = (Inr (Some ex), w1)"
    by (blast dest: withRetry_Inr)
  then obtain e where "ex = entityToRFQ e"
    by (auto simp: getRFQ_attempt_def split: prod.splits sum.splits option.splits)
  then show ?thesis by (simp add: keys_entityToRFQ)
qed

lemma lowerCaseOf_Inr: "lowerCaseOf v = Inr l \<Longrightarrow> \<exists>c. v = JString c \<and> l = toLowerCase c"
  by (cases v) auto

text \<open>What a successful update has gone through.\<close>

lemma updateRFQ_success:
  assumes ok: "updateRFQ cl i upd (w :: 's world) = (Inr r, w')"
  shows "\<exists>ex w1 a sg (u :: 's world) e s'.
           getRFQ cl i w = (Inr (Some ex), w1) \<and> getSignerAddress cl = Inr a
         \<and> map fst ex = rfqKeys
         \<and> lowerCaseOf (getProp ex ''creator'') = Inr (toLowerCase a)
         \<and> getProp ex ''status'' = JString ''OPEN''
         \<and> signRFQData cl (updatedData ex upd (nowSeconds w1)) = Inr sg
         \<and> writeEntity (arkivClient cl) (clock u)
               \<lparr>w_entityType = RFQ_ENTITY_TYPE, w_entityKey = i,
                w_data = updatedData ex upd (nowSeconds w1), w_signature = Some sg\<rparr> (store u)
             = (Inr e, s')
         \<and> r = entityToRFQ e
         \<and> calls w' = calls u @ [WriteCall \<lparr>w_entityType = RFQ_ENTITY_TYPE, w_entityKey = i,
                w_data = updatedData ex upd (nowSeconds w1), w_signature = Some sg\<rparr>]"
proof -
  obtain g w1 where g: "getRFQ cl i w = (g, w1)" by (cases "getRFQ cl i w")
  from ok g obtain ex where ex: "g = Inr (Some ex)"
    by (auto simp: updateRFQ_def split: sum.splits option.splits)
  from ok g ex obtain a where a: "getSignerAddress cl = Inr a"
    by (auto simp: updateRFQ_def split: sum.splits)
  from ok g ex a have own: "lowerCaseOf (getProp ex ''creator'') = Inr (toLowerCase a)"
    and st: "getProp ex ''status'' = JString ''OPEN''"
    by (auto simp: updateRFQ_def split: sum.splits if_splits)
  from g ex have sh: "map fst ex = rfqKeys" by (simp add: getRFQ_shape)
  let ?d = "updatedData ex upd (nowSeconds w1)"
  from ok g ex a own st obtain sg where sg: "signRFQData cl ?d = Inr sg"
    by (auto simp: updateRFQ_def Let_def split: sum.splits)
  from ok g ex a own st sg have "withRetry (updateRFQ_attempt cl i ?d sg) w1 = (Inr r, w')"
    by (auto simp: updateRFQ_def Let_def split: sum.splits)
  then obtain u where u: "updateRFQ_attempt cl i ?d sg u = (Inr r, w')"
    by (blast dest: withRetry_Inr)
  let ?opts = "\<lparr>w_entityType = RFQ_ENTITY_TYPE, w_entityKey = i, w_data = ?d, w_signature = Some sg\<rparr>"
  obtain x s' where wr: "writeEntity (arkivClient cl) (clock u) ?opts (store u) = (x, s')"
    by (cases "writeEntity (arkivClient cl) (clock u) ?opts (store u)")
  from u wr obtain e where e: "x = Inr e" "r = entityToRFQ e" "calls w' = calls u @ [WriteCall ?opts]"
    by (auto simp: updateRFQ_attempt_def call_writeEntity_def split: sum.splits)
  show ?thesis
    apply (rule exI[of _ ex], rule exI[of _ w1], rule exI[of _ a], rule exI[of _ sg])
    apply (rule exI[of _ u], rule exI[of _ e], rule exI[of _ s'])
    using g ex a own st sh sg wr e by simp
qed

lemma echoesD: "echoes st \<Longrightarrow> writeEntity st now opts s = (Inr e, s') \<Longrightarrow> data e = w_data opts"
  unfolding echoes_def by blast

lemma updateRFQ_result:
  assumes ok: "updateRFQ cl i upd w = (Inr r, w')" and ec: "echoes (arkivClient cl)"
  shows "\<exists>ex. fst (getRFQ cl i w) = Inr (Some ex) \<and> map fst ex = rfqKeys
            \<and> getProp ex ''status'' = JString ''OPEN''
            \<and> r = map (\<lambda>k. (k, getProp (updatedData ex upd (nowSeconds (snd (getRFQ cl i w)))) k))
                     rfqKeys"
proof -
  from updateRFQ_success[OF ok] obtain ex w1 sg u e s' where
    g: "getRFQ cl i w = (Inr (Some ex), w1)" and sh: "map fst ex = rfqKeys" and
    st: "getProp ex ''status'' = JString ''OPEN''" and
    wr: "writeEntity (arkivClient cl) (clock (u :: 'a world))
               \<lparr>w_entityType = RFQ_ENTITY_TYPE, w_entityKey = i,
                w_data = updatedData ex upd (nowSeconds w1), w_signature = Some sg\<rparr> (store u)
             = (Inr e, s')" and r: "r = entityToRFQ e"
    by blast
  from echoesD[OF ec wr] r
  have "r = map (\<lambda>k. (k, getProp (updatedData ex upd (nowSeconds w1)) k)) rfqKeys"
    by (simp add: entityToRFQ_map)
  with g sh st show ?thesis by simp
qed

lemma clock_mono_getRFQ: "getRFQ cl i w = (r, w') \<Longrightarrow> clock w \<le> clock w'"
  unfolding getRFQ_def withRetry_def withRetryWith_def
  apply (auto split: sum.splits)
  apply (erule withRetry_loop_rel[where R = "\<lambda>u u'. clock u \<le> clock u'", rotated -1])
  apply (auto simp: sleep_def getRFQ_attempt_def call_getEntity_def split: prod.splits sum.splits)
  done



section \<open>Cancellation\<close>

lemma echoes_mock: "echoes (ArkivClientMock :: 'h MockState ArkivPublicClient)"
  by (auto simp: echoes_def ArkivClientMock_def mock_writeEntity_def Let_def)

lemma getAddress_MockSigner [simp]: "getAddress (MockSigner a) = Inr a"
  by (simp add: MockSigner_def)

lemma signMessage_MockSigner [simp]: "signMessage (MockSigner a) d = Inr mockSignature"
  by (simp add: MockSigner_def)

lemma updateRFQ_mock:
  assumes sh: "map fst d = rfqKeys"
    and cr: "getProp d ''creator'' = JString c" and own: "toLowerCase c = toLowerCase a"
    and st: "getProp d ''status'' = JString ''OPEN''"
  shows "updateRFQ \<lparr>arkivClient = ArkivClientMock, signer = Some (MockSigner a)\<rparr> testId upd
           \<lparr>clock = t, calls = cs, store = testStore d t0\<rparr> =
         (Inr (map (\<lambda>k. (k, getProp (updatedData d upd (t div 1000)) k)) rfqKeys),
          \<lparr>clock = t,
           calls = cs @ [GetCall ''RFQ'' testId, testWrite (updatedData d upd (t div 1000))],
           store = testStore (updatedData d upd (t div 1000)) t\<rparr>)"
proof -
  let ?cl = "\<lparr>arkivClient = ArkivClientMock, signer = Some (MockSigner a)\<rparr>
               :: Event list MockState ArkivRFQClient"
  let ?w1 = "\<lparr>clock = t, calls = cs @ [GetCall ''RFQ'' testId], store = testStore d t0\<rparr>"
  let ?d = "updatedData d upd (t div 1000)"
  have at: "updateRFQ_attempt ?cl testId ?d mockSignature ?w1 =
      (Inr (map (\<lambda>k. (k, getProp ?d k)) rfqKeys),
       \<lparr>clock = t, calls = cs @ [GetCall ''RFQ'' testId, testWrite ?d],
                store = testStore ?d t\<rparr>)"
    by (simp add: updateRFQ_attempt_def call_writeEntity_def ArkivClientMock_def
        mock_writeEntity_def Let_def RFQ_ENTITY_TYPE_def testWrite_def testStore_def
        entityToRFQ_map)
  show ?thesis
    by (simp add: updateRFQ_def validate_testId getRFQ_mock[OF validate_testId sh]
        getSignerAddress_def signRFQData_def cr own st nowSeconds_def Let_def
        withRetry_first_success[where fn = "updateRFQ_attempt ?cl testId ?d mockSignature", OF at])
qed

lemma keys_setProp_mem: "k \<in> set (map fst ps) \<Longrightarrow> map fst (setProp k v ps) = map fst ps"
  by (simp add: keys_setProp)

lemma cancel_shape:
  assumes sh: "map fst ex = rfqKeys"
  shows "updatedData ex cancelUpdate n =
           setProp ''updatedAt'' (JNumber (int n)) (setProp ''status'' (JString ''CANCELLED'') ex)"
    and "map (\<lambda>k. (k, getProp (updatedData ex cancelUpdate n) k)) rfqKeys =
           setProp ''updatedAt'' (JNumber (int n)) (setProp ''status'' (JString ''CANCELLED'') ex)"
proof -
  let ?d = "setProp ''updatedAt'' (JNumber (int n)) (setProp ''status'' (JString ''CANCELLED'') ex)"
  show u: "updatedData ex cancelUpdate n = ?d"
    by (simp add: updatedData_shape[OF sh] cancelUpdate_def assign_Cons assign_Nil)
  have k1: "map fst (setProp ''status'' (JString ''CANCELLED'') ex) = rfqKeys"
    using keys_setProp_mem[of "''status''" ex] sh by (simp add: rfqKeys_def)
  have k2: "map fst ?d = rfqKeys"
    using keys_setProp_mem[of "''updatedAt''" "setProp ''status'' (JString ''CANCELLED'') ex"] k1
    by (simp add: rfqKeys_def)
  have "distinct (map fst ?d)" unfolding k2 by (rule distinct_rfqKeys)
  from rebuild_object[OF this]
  show "map (\<lambda>k. (k, getProp (updatedData ex cancelUpdate n) k)) rfqKeys = ?d"
    unfolding u k2 .
qed

lemma cancel_testRFQ:
  "setProp ''updatedAt'' (JNumber 1000) (setProp ''status'' (JString ''CANCELLED'') testRFQ)
     = setProp ''status'' (JString ''CANCELLED'') testRFQ"
  by (simp add: testRFQ_def)

lemma testRFQ_props:
  "getProp testRFQ ''creator'' = JString testAddress"
  "getProp testRFQ ''status'' = JString ''OPEN''"
  "getProp testRFQ ''updatedAt'' = JNumber 1000"
  "getProp testRFQ ''id'' = JString testId"
  by (simp_all add: testRFQ_def)

lemma cancelRFQ_created:
  "cancelRFQ testClient testId createdWorld =
     (Inr (setProp ''status'' (JString ''CANCELLED'') testRFQ),
      \<lparr>clock = 1000500,
       calls = [testWrite testRFQ, GetCall ''RFQ'' testId,
                testWrite (setProp ''status'' (JString ''CANCELLED'') testRFQ)],
       store = testStore (setProp ''status'' (JString ''CANCELLED'') testRFQ) 1000500\<rparr>)"
proof -
  have n: "int (1000 :: nat) = 1000" by simp
  show ?thesis
    unfolding cancelRFQ_def testClient_def createdWorld_eq
    using updateRFQ_mock[OF keys_testRFQ testRFQ_props(1) refl testRFQ_props(2),
        of cancelUpdate 1000500 "[testWrite testRFQ]" 1000000]
      cancel_shape[OF keys_testRFQ, of 1000] cancel_testRFQ
    by (simp add: n)
qed

lemma getRFQ_created:
  "getRFQ testClient testId createdWorld =
     (Inr (Some testRFQ),
      \<lparr>clock = 1000500, calls = [testWrite testRFQ, GetCall ''RFQ'' testId],
       store = testStore testRFQ 1000000\<rparr>)"
  unfolding testClient_def createdWorld_eq
  using getRFQ_mock[OF validate_testId keys_testRFQ, of "Some (MockSigner testAddress)" 1000500
      "[testWrite testRFQ]" 1000000]
  by simp

text \<open>
  C6, as stated, fails on the strict inequality. \<open>updatedAt\<close> has the resolution of a
  second: the RFQ created at 1000.000 s and cancelled at 1000.500 s keeps
  \<open>updatedAt = 1000\<close>.
\<close>

theorem cancelRFQ_same_second:
  "fst (getRFQ testClient testId createdWorld) = Inr (Some testRFQ)
   \<and> getProp testRFQ ''updatedAt'' = JNumber 1000
   \<and> (\<exists>r. fst (cancelRFQ testClient testId createdWorld) = Inr r
          \<and> getProp r ''status'' = JString ''CANCELLED''
          \<and> getProp r ''updatedAt'' = JNumber 1000)"
  by (simp add: getRFQ_created cancelRFQ_created getProp_setProp testRFQ_props)

text \<open>
  C6, amended. \<open>cancelRFQ(id)\<close> is \<open>updateRFQ(id, {status: CANCELLED})\<close>. Where it
  succeeds on a store that echoes what it is given, the fetched record was \<open>OPEN\<close> and
  the result is that record with \<open>status = CANCELLED\<close> and \<open>updatedAt\<close> set to the
  clock's whole seconds read after the fetch, which is not before the second in which
  the call began. (It is later than the old \<open>updatedAt\<close> exactly when that second
  is.)
\<close>

theorem cancelRFQ_is_update:
  "cancelRFQ cl i w = updateRFQ cl i cancelUpdate w
   \<and> (echoes (arkivClient cl) \<and> cancelRFQ cl i w = (Inr r, w') \<longrightarrow>
        (\<exists>ex now. fst (getRFQ cl i w) = Inr (Some ex) \<and> getProp ex ''status'' = JString ''OPEN''
             \<and> now = nowSeconds (snd (getRFQ cl i w))
             \<and> r = setProp ''updatedAt'' (JNumber (int now))
                     (setProp ''status'' (JString ''CANCELLED'') ex)
             \<and> getProp r ''status'' = JString ''CANCELLED''
             \<and> getProp r ''updatedAt'' = JNumber (int now)
             \<and> nowSeconds w \<le> now))"
proof (intro conjI impI)
  show "cancelRFQ cl i w = updateRFQ cl i cancelUpdate w" by (simp add: cancelRFQ_def)
next
  assume a: "echoes (arkivClient cl) \<and> cancelRFQ cl i w = (Inr r, w')"
  then have ok: "updateRFQ cl i cancelUpdate w = (Inr r, w')" by (simp add: cancelRFQ_def)
  let ?now = "nowSeconds (snd (getRFQ cl i w))"
  from updateRFQ_result[OF ok] a obtain ex where
    ex: "fst (getRFQ cl i w) = Inr (Some ex)" "map fst ex = rfqKeys"
      "getProp ex ''status'' = JString ''OPEN''"
      "r = map (\<lambda>k. (k, getProp (updatedData ex cancelUpdate ?now) k)) rfqKeys"
    by blast
  have m: "clock w \<le> clock (snd (getRFQ cl i w))"
    by (rule clock_mono_getRFQ[of cl i w "fst (getRFQ cl i w)"]) simp
  have r: "r = setProp ''updatedAt'' (JNumber (int ?now))
                 (setProp ''status'' (JString ''CANCELLED'') ex)"
    using ex(4) cancel_shape(2)[OF ex(2), of ?now] by simp
  have le: "nowSeconds w \<le> ?now"
    using m by (simp add: nowSeconds_def div_le_mono)
  show "\<exists>ex now. fst (getRFQ cl i w) = Inr (Some ex) \<and> getProp ex ''status'' = JString ''OPEN''
             \<and> now = nowSeconds (snd (getRFQ cl i w))
             \<and> r = setProp ''updatedAt'' (JNumber (int now))
                     (setProp ''status'' (JString ''CANCELLED'') ex)
             \<and> getProp r ''status'' = JString ''CANCELLED''
             \<and> getProp r ''updatedAt'' = JNumber (int now)
             \<and> nowSeconds w \<le> now"
    apply (rule exI[of _ ex], rule exI[of _ ?now])
    using ex(1,3) le r by (simp add: getProp_setProp)
qed

theorem cancelRFQ_is_update_witness:
  "echoes (arkivClient testClient)
   \<and> fst (cancelRFQ testClient testId createdWorld)
       = Inr (setProp ''status'' (JString ''CANCELLED'') testRFQ)
   \<and> getProp (setProp ''status'' (JString ''CANCELLED'') testRFQ) ''status'' = JString ''CANCELLED''
   \<and> getProp (setProp ''status'' (JString ''CANCELLED'') testRFQ) ''updatedAt'' = JNumber 1000
   \<and> nowSeconds (snd (getRFQ testClient testId createdWorld)) = 1000"
proof -
  have e: "echoes (arkivClient testClient)" by (simp add: testClient_def echoes_mock)
  show ?thesis
    using e cancelRFQ_created
      cancelRFQ_is_update[of testClient testId createdWorld
        "setProp ''status'' (JString ''CANCELLED'') testRFQ"
        "\<lparr>clock = 1000500,
       calls = [testWrite testRFQ, GetCall ''RFQ'' testId,
                testWrite (setProp ''status'' (JString ''CANCELLED'') testRFQ)],
       store = testStore (setProp ''status'' (JString ''CANCELLED'') testRFQ) 1000500\<rparr>"]
    by (simp add: getRFQ_created nowSeconds_def getProp_setProp testRFQ_props)
qed

section \<open>Updates: status check and frame\<close>

lemma keys_cancelled: "map fst (setProp ''status'' (JString ''CANCELLED'') testRFQ) = rfqKeys"
  by (simp add: testRFQ_def rfqKeys_def)

lemma cancelledWorld_eq:
  "cancelledWorld =
     \<lparr>clock = 1001000,
      calls = [testWrite testRFQ, GetCall ''RFQ'' testId,
               testWrite (setProp ''status'' (JString ''CANCELLED'') testRFQ)],
      store = testStore (setProp ''status'' (JString ''CANCELLED'') testRFQ) 1000500\<rparr>"
  by (simp add: cancelledWorld_def cancelRFQ_created sleep_def)

lemma getRFQ_cancelled:
  "getRFQ \<lparr>arkivClient = ArkivClientMock, signer = sg\<rparr> testId cancelledWorld =
     (Inr (Some (setProp ''status'' (JString ''CANCELLED'') testRFQ)),
      \<lparr>clock = 1001000,
       calls = [testWrite testRFQ, GetCall ''RFQ'' testId,
                testWrite (setProp ''status'' (JString ''CANCELLED'') testRFQ),
                GetCall ''RFQ'' testId],
       store = testStore (setProp ''status'' (JString ''CANCELLED'') testRFQ) 1000500\<rparr>)"
  unfolding cancelledWorld_eq
  using getRFQ_mock[OF validate_testId keys_cancelled, of sg 1001000 _ 1000500]
  by simp

lemma cancelled_props:
  "getProp (setProp ''status'' (JString ''CANCELLED'') testRFQ) ''status'' = JString ''CANCELLED''"
  "getProp (setProp ''status'' (JString ''CANCELLED'') testRFQ) ''creator'' = JString testAddress"
  by (simp_all add: getProp_setProp testRFQ_props)

lemma getSignerAddress_Inl: "getSignerAddress cl = Inl e \<Longrightarrow> isError e ''SignatureError''"
  by (auto simp: getSignerAddress_def SignatureError_def split: option.splits sum.splits)

lemma updateRFQ_after_read:
  assumes g: "getRFQ cl i w = (Inr (Some ex), w1)"
  shows "updateRFQ cl i upd w =
     (case getSignerAddress cl of Inl e \<Rightarrow> (Inl e, w1) | Inr signerAddress \<Rightarrow>
      case lowerCaseOf (getProp ex ''creator'') of
        Inl e \<Rightarrow> (Inl e, w1) | Inr creatorLower \<Rightarrow>
      if creatorLower \<noteq> toLowerCase signerAddress then
        (Inl (OwnershipError ''Only the RFQ creator can update this RFQ''), w1)
      else if getProp ex ''status'' \<noteq> JString ''OPEN'' then
        (Inl (OwnershipError ''Cannot update a non-open RFQ''), w1)
      else
        let d = updatedData ex upd (nowSeconds w1)
        in case signRFQData cl d of Inl e \<Rightarrow> (Inl e, w1) | Inr signature \<Rightarrow>
           withRetry (updateRFQ_attempt cl i d signature) w1)"
  using g getRFQ_valid[OF g] by (simp add: updateRFQ_def)

text \<open>
  C3, as stated, fails. The signer is asked for its address before the status is
  looked at: a client with no signer that updates the cancelled test record is refused
  with \<open>SignatureError\<close>, not \<open>OwnershipError\<close>.
\<close>

theorem updateRFQ_non_open_unsigned:
  "fst (getRFQ noSignerClient testId cancelledWorld)
     = Inr (Some (setProp ''status'' (JString ''CANCELLED'') testRFQ))
   \<and> getProp (setProp ''status'' (JString ''CANCELLED'') testRFQ) ''status'' \<noteq> JString ''OPEN''
   \<and> fst (updateRFQ noSignerClient testId testUpdate cancelledWorld)
       = Inl (SignatureError ''No signer configured. Call setSigner() first.'' None)
   \<and> \<not> isError (SignatureError ''No signer configured. Call setSigner() first.'' None)
          ''OwnershipError''"
proof -
  have g: "getRFQ noSignerClient testId cancelledWorld =
     (Inr (Some (setProp ''status'' (JString ''CANCELLED'') testRFQ)),
      \<lparr>clock = 1001000,
       calls = [testWrite testRFQ, GetCall ''RFQ'' testId,
                testWrite (setProp ''status'' (JString ''CANCELLED'') testRFQ),
                GetCall ''RFQ'' testId],
       store = testStore (setProp ''status'' (JString ''CANCELLED'') testRFQ) 1000500\<rparr>)"
    unfolding noSignerClient_def by (rule getRFQ_cancelled)
  have ns: "signer noSignerClient = None" by (simp add: noSignerClient_def)
  show ?thesis
    by (simp add: updateRFQ_after_read[OF g] g getSignerAddress_None[OF ns] cancelled_props
        SignatureError_def)
qed

text \<open>
  C3, amended. \<open>updateRFQ\<close> on a fetched record whose status is not \<open>OPEN\<close> never
  succeeds and writes nothing (the world is the one the read left). For every caller
  whose signer gives an address, and a record whose \<open>creator\<close> is a string (as
  \<open>createRFQ\<close> writes it), it fails with \<open>OwnershipError\<close>, whether or not that
  address is the stored creator's (compared case-insensitively): a stranger is told
  that only the creator can update, the creator that a non-open RFQ cannot be updated.
  A caller whose signer is missing or fails gets the \<open>SignatureError\<close> of
  \<open>getSignerAddress\<close> instead.
\<close>

theorem updateRFQ_non_open:
  assumes g: "fst (getRFQ cl i w) = Inr (Some ex)"
    and st: "getProp ex ''status'' \<noteq> JString ''OPEN''"
  shows "(\<exists>e. updateRFQ cl i upd w = (Inl e, snd (getRFQ cl i w)))
       \<and> (\<forall>a c. getSignerAddress cl = Inr a \<and> getProp ex ''creator'' = JString c \<longrightarrow>
             updateRFQ cl i upd w =
               (Inl (OwnershipError
                  (if toLowerCase c \<noteq> toLowerCase a
                   then ''Only the RFQ creator can update this RFQ''
                   else ''Cannot update a non-open RFQ'')),
                snd (getRFQ cl i w)))
       \<and> (\<forall>e. getSignerAddress cl = Inl e \<longrightarrow>
             isError e ''SignatureError''
             \<and> updateRFQ cl i upd w = (Inl e, snd (getRFQ cl i w)))"
proof -
  obtain w1 where g': "getRFQ cl i w = (Inr (Some ex), w1)"
    using g by (cases "getRFQ cl i w") simp
  note u = updateRFQ_after_read[OF g', of upd]
  have 1: "\<exists>e. updateRFQ cl i upd w = (Inl e, snd (getRFQ cl i w))"
    using st by (simp add: u g' split: sum.splits)
  have 2: "\<forall>a c. getSignerAddress cl = Inr a \<and> getProp ex ''creator'' = JString c \<longrightarrow>
             updateRFQ cl i upd w =
               (Inl (OwnershipError
                  (if toLowerCase c \<noteq> toLowerCase a
                   then ''Only the RFQ creator can update this RFQ''
                   else ''Cannot update a non-open RFQ'')),
                snd (getRFQ cl i w))"
    using st by (simp add: u g')
  have 3: "\<forall>e. getSignerAddress cl = Inl e \<longrightarrow>
             isError e ''SignatureError''
             \<and> updateRFQ cl i upd w = (Inl e, snd (getRFQ cl i w))"
    using getSignerAddress_Inl by (auto simp: u g')
  from 1 2 3 show ?thesis by blast
qed

theorem updateRFQ_non_open_witness:
  "fst (getRFQ testClient testId cancelledWorld)
     = Inr (Some (setProp ''status'' (JString ''CANCELLED'') testRFQ))
   \<and> getProp (setProp ''status'' (JString ''CANCELLED'') testRFQ) ''status'' \<noteq> JString ''OPEN''
   \<and> getProp (setProp ''status'' (JString ''CANCELLED'') testRFQ) ''creator'' = JString testAddress
   \<and> getSignerAddress testClient = Inr testAddress
   \<and> fst (updateRFQ testClient testId cancelUpdate cancelledWorld)
       = Inl (OwnershipError ''Cannot update a non-open RFQ'')
   \<and> getSignerAddress otherClient = Inr ''0x9999999999999999999999999999999999999999''
   \<and> fst (updateRFQ otherClient testId cancelUpdate cancelledWorld)
       = Inl (OwnershipError ''Only the RFQ creator can update this RFQ'')
   \<and> (\<exists>e. getSignerAddress noSignerClient = Inl e
          \<and> fst (updateRFQ noSignerClient testId cancelUpdate cancelledWorld) = Inl e
          \<and> isError e ''SignatureError'')"
proof -
  let ?c = "setProp ''status'' (JString ''CANCELLED'') testRFQ"
  have g1: "fst (getRFQ testClient testId cancelledWorld) = Inr (Some ?c)"
    by (simp add: testClient_def getRFQ_cancelled)
  have g2: "fst (getRFQ otherClient testId cancelledWorld) = Inr (Some ?c)"
    by (simp add: otherClient_def getRFQ_cancelled)
  have g3: "fst (getRFQ noSignerClient testId cancelledWorld) = Inr (Some ?c)"
    by (simp add: noSignerClient_def getRFQ_cancelled)
  have st: "getProp ?c ''status'' \<noteq> JString ''OPEN''" by (simp add: cancelled_props)
  have a2: "getSignerAddress otherClient = Inr ''0x9999999999999999999999999999999999999999''"
    by (simp add: getSignerAddress_def otherClient_def)
  have a3: "getSignerAddress noSignerClient
              = Inl (SignatureError ''No signer configured. Call setSigner() first.'' None)"
    by (simp add: getSignerAddress_None noSignerClient_def)
  have l2: "toLowerCase testAddress \<noteq> toLowerCase ''0x9999999999999999999999999999999999999999''"
    by (simp add: toLowerCase_testAddress) code_simp
  show ?thesis
    using updateRFQ_non_open[OF g1 st, of cancelUpdate]
      updateRFQ_non_open[OF g2 st, of cancelUpdate]
      updateRFQ_non_open[OF g3 st, of cancelUpdate] g1 a2 a3 l2
    by (simp add: getSignerAddress_testClient cancelled_props)
qed

lemma hasOwn_iff: "hasOwn upd k \<longleftrightarrow> k \<in> fst ` set upd"
  by (simp add: hasOwn_def)

lemma getProp_absent: "k \<notin> set (map fst ps) \<Longrightarrow> getProp ps k = JUndefined"
  by (induction ps) auto

lemma last_write_props:
  assumes sh: "map fst ex = rfqKeys" and k: "\<not> hasOwn upd k" "k \<noteq> ''updatedAt''"
  shows "getProp (updatedData ex upd n) k = getProp ex k"
    and "getProp (map (\<lambda>k. (k, getProp (updatedData ex upd n) k)) rfqKeys) k = getProp ex k"
proof -
  show a: "getProp (updatedData ex upd n) k = getProp ex k"
    using k by (simp add: getProp_updatedData[OF sh] getProp_assign_other hasOwn_iff)
  show "getProp (map (\<lambda>k. (k, getProp (updatedData ex upd n) k)) rfqKeys) k = getProp ex k"
    using a getProp_absent[of k ex] sh by (simp add: getProp_map_keys)
qed

lemma updateRFQ_wide:
  "updateRFQ testClient testId wideUpdate createdWorld =
     (Inr (map (\<lambda>k. (k, getProp (updatedData testRFQ wideUpdate 1000) k)) rfqKeys),
      \<lparr>clock = 1000500,
       calls = [testWrite testRFQ, GetCall ''RFQ'' testId,
                testWrite (updatedData testRFQ wideUpdate 1000)],
       store = testStore (updatedData testRFQ wideUpdate 1000) 1000500\<rparr>)"
  unfolding testClient_def createdWorld_eq
  using updateRFQ_mock[OF keys_testRFQ testRFQ_props(1) refl testRFQ_props(2),
      of wideUpdate 1000500 "[testWrite testRFQ]" 1000000]
  by simp

lemma wide_id: "getProp (updatedData testRFQ wideUpdate 1000) ''id'' = JString ''other-id''"
  by (simp add: getProp_updatedData[OF keys_testRFQ] wideUpdate_def assign_Cons assign_Nil
      getProp_setProp)

text \<open>
  C7, as stated, fails. The update object is spread into the new record whole. An
  object that carries an \<open>id\<close> of its own beside \<open>baseAmount\<close> (as a value of a wider
  type, which is assignable to \<open>UpdateRFQInput\<close>, may) replaces the \<open>id\<close> of the record
  written and returned.
\<close>

theorem updateRFQ_overwrites_id:
  "fst (getRFQ testClient testId createdWorld) = Inr (Some testRFQ)
   \<and> getProp testRFQ ''id'' = JString testId
   \<and> JString testId \<noteq> JString ''other-id''
   \<and> (\<exists>r w'. updateRFQ testClient testId wideUpdate createdWorld = (Inr r, w')
          \<and> getProp r ''id'' = JString ''other-id''
          \<and> (\<exists>opts. last (calls w') = WriteCall opts
                \<and> getProp (w_data opts) ''id'' = JString ''other-id''))"
proof -
  have ne: "testId \<noteq> ''other-id''" by (simp add: testId_def)
  have r: "getProp (map (\<lambda>k. (k, getProp (updatedData testRFQ wideUpdate 1000) k)) rfqKeys) ''id''
             = JString ''other-id''"
    by (simp add: getProp_map_keys wide_id) (simp add: rfqKeys_def)
  show ?thesis
    by (simp add: getRFQ_created testRFQ_props ne updateRFQ_wide r testWrite_def wide_id)
qed

text \<open>
  C7, amended. A successful \<open>updateRFQ\<close> writes a record in which every property that
  the update object does not itself carry, \<open>updatedAt\<close> apart, has the value it had in
  the record fetched; on a store that echoes what it is given, the record returned is
  read off the one written, so the same holds of the result. In particular, for every
  update object whose own properties are among the six of \<open>UpdateRFQInput\<close>, the
  \<open>id\<close>, \<open>creator\<close>, \<open>baseToken\<close> and \<open>quoteToken\<close> written and returned are those of
  the record fetched.
\<close>

theorem updateRFQ_frame:
  assumes ok: "updateRFQ cl i upd (w :: 's world) = (Inr r, w')"
  shows "\<exists>ex opts. fst (getRFQ cl i w) = Inr (Some ex)
          \<and> calls w' \<noteq> [] \<and> last (calls w') = WriteCall opts
          \<and> (\<forall>k. \<not> hasOwn upd k \<and> k \<noteq> ''updatedAt'' \<longrightarrow>
                getProp (w_data opts) k = getProp ex k)
          \<and> (echoes (arkivClient cl) \<longrightarrow>
                r = map (\<lambda>k. (k, getProp (w_data opts) k)) rfqKeys
                \<and> (\<forall>k. \<not> hasOwn upd k \<and> k \<noteq> ''updatedAt'' \<longrightarrow> getProp r k = getProp ex k))
          \<and> (set (map fst upd) \<subseteq> set updateKeys \<longrightarrow>
                getProp (w_data opts) ''id'' = getProp ex ''id''
                \<and> getProp (w_data opts) ''creator'' = getProp ex ''creator''
                \<and> getProp (w_data opts) ''baseToken'' = getProp ex ''baseToken''
                \<and> getProp (w_data opts) ''quoteToken'' = getProp ex ''quoteToken''
                \<and> (echoes (arkivClient cl) \<longrightarrow>
                      getProp r ''id'' = getProp ex ''id''
                      \<and> getProp r ''creator'' = getProp ex ''creator''
                      \<and> getProp r ''baseToken'' = getProp ex ''baseToken''
                      \<and> getProp r ''quoteToken'' = getProp ex ''quoteToken''))"
proof -
  from updateRFQ_success[OF ok] obtain ex w1 sg and u :: "'s world" and e s' where
    g: "getRFQ cl i w = (Inr (Some ex), w1)" and sh: "map fst ex = rfqKeys" and
    wr: "writeEntity (arkivClient cl) (clock u)
               \<lparr>w_entityType = RFQ_ENTITY_TYPE, w_entityKey = i,
                w_data = updatedData ex upd (nowSeconds w1), w_signature = Some sg\<rparr> (store u)
             = (Inr e, s')" and r: "r = entityToRFQ e" and
    c: "calls w' = calls u @ [WriteCall \<lparr>w_entityType = RFQ_ENTITY_TYPE, w_entityKey = i,
                w_data = updatedData ex upd (nowSeconds w1), w_signature = Some sg\<rparr>]"
    by blast
  let ?d = "updatedData ex upd (nowSeconds w1)"
  let ?opts = "\<lparr>w_entityType = RFQ_ENTITY_TYPE, w_entityKey = i,
                w_data = ?d, w_signature = Some sg\<rparr>"
  have e: "echoes (arkivClient cl) \<Longrightarrow> r = map (\<lambda>k. (k, getProp ?d k)) rfqKeys"
    using echoesD[OF _ wr] r by (simp add: entityToRFQ_map)
  have fd: "\<And>k. \<not> hasOwn upd k \<Longrightarrow> k \<noteq> ''updatedAt'' \<Longrightarrow> getProp ?d k = getProp ex k"
    by (rule last_write_props(1)[OF sh])
  have fr: "\<And>k. echoes (arkivClient cl) \<Longrightarrow> \<not> hasOwn upd k \<Longrightarrow> k \<noteq> ''updatedAt'' \<Longrightarrow>
              getProp r k = getProp ex k"
    using e last_write_props(2)[OF sh] by simp
  have no: "set (map fst upd) \<subseteq> set updateKeys \<Longrightarrow>
              \<not> hasOwn upd ''id'' \<and> \<not> hasOwn upd ''creator''
              \<and> \<not> hasOwn upd ''baseToken'' \<and> \<not> hasOwn upd ''quoteToken''"
    by (auto simp: hasOwn_def updateKeys_def)
  show ?thesis
    apply (rule exI[of _ ex], rule exI[of _ ?opts])
    using g c e fd fr no by simp
qed

lemma update_testRFQ:
  "map (\<lambda>k. (k, getProp (updatedData testRFQ testUpdate 1000) k)) rfqKeys
     = setProp ''baseAmount'' (JString ''1500000000000000000'') testRFQ"
  by (simp add: updatedData_shape[OF keys_testRFQ] testUpdate_def assign_Cons assign_Nil)
     (simp add: testRFQ_def rfqKeys_def)

theorem updateRFQ_frame_witness:
  "(\<exists>w'. updateRFQ testClient testId testUpdate createdWorld
           = (Inr (setProp ''baseAmount'' (JString ''1500000000000000000'') testRFQ), w'))
   \<and> echoes (arkivClient testClient)
   \<and> set (map fst testUpdate) \<subseteq> set updateKeys
   \<and> \<not> hasOwn testUpdate ''id''
   \<and> fst (getRFQ testClient testId createdWorld) = Inr (Some testRFQ)
   \<and> getProp (setProp ''baseAmount'' (JString ''1500000000000000000'') testRFQ) ''id''
       = getProp testRFQ ''id''
   \<and> getProp (setProp ''baseAmount'' (JString ''1500000000000000000'') testRFQ) ''creator''
       = getProp testRFQ ''creator''
   \<and> getProp (setProp ''baseAmount'' (JString ''1500000000000000000'') testRFQ) ''baseToken''
       = getProp testRFQ ''baseToken''
   \<and> getProp (setProp ''baseAmount'' (JString ''1500000000000000000'') testRFQ) ''quoteToken''
       = getProp testRFQ ''quoteToken''"
proof -
  let ?r = "setProp ''baseAmount'' (JString ''1500000000000000000'') testRFQ"
  have u: "updateRFQ testClient testId testUpdate createdWorld =
     (Inr ?r, \<lparr>clock = 1000500,
       calls = [testWrite testRFQ, GetCall ''RFQ'' testId,
                testWrite (updatedData testRFQ testUpdate 1000)],
       store = testStore (updatedData testRFQ testUpdate 1000) 1000500\<rparr>)"
    unfolding testClient_def createdWorld_eq
    using updateRFQ_mock[OF keys_testRFQ testRFQ_props(1) refl testRFQ_props(2),
        of testUpdate 1000500 "[testWrite testRFQ]" 1000000]
    by (simp add: update_testRFQ)
  have e: "echoes (arkivClient testClient)" by (simp add: testClient_def echoes_mock)
  have s: "set (map fst testUpdate) \<subseteq> set updateKeys" "\<not> hasOwn testUpdate ''id''"
    by (simp_all add: testUpdate_def updateKeys_def hasOwn_def)
  show ?thesis
    using updateRFQ_frame[OF u] e u s by (auto simp: getRFQ_created)
qed

section \<open>Creation\<close>

text \<open>What a successful creation has gone through.\<close>

lemma createRFQ_success:
  assumes ok: "createRFQ cl random input (w :: 's world) = (Inr r, w')"
  shows "\<exists>a sg (u :: 's world) e s'.
           validateCreateRFQInput (nowSeconds w) input = Inr ()
         \<and> getSignerAddress cl = Inr a
         \<and> writeEntity (arkivClient cl) (clock u)
               \<lparr>w_entityType = RFQ_ENTITY_TYPE,
                w_entityKey = generateRFQId a (nowSeconds w) random,
                w_data = rfqData (generateRFQId a (nowSeconds w) random) a (nowSeconds w) input,
                w_signature = Some sg\<rparr> (store u)
             = (Inr e, s')
         \<and> r = entityToRFQ e
         \<and> calls w' = calls u @ [WriteCall \<lparr>w_entityType = RFQ_ENTITY_TYPE,
                w_entityKey = generateRFQId a (nowSeconds w) random,
                w_data = rfqData (generateRFQId a (nowSeconds w) random) a (nowSeconds w) input,
                w_signature = Some sg\<rparr>]"
proof -
  from ok have v: "validateCreateRFQInput (nowSeconds w) input = Inr ()"
    by (auto simp: createRFQ_def split: sum.splits)
  from ok v obtain a where a: "getSignerAddress cl = Inr a"
    by (auto simp: createRFQ_def split: sum.splits)
  let ?i = "generateRFQId a (nowSeconds w) random"
  let ?d = "rfqData ?i a (nowSeconds w) input"
  from ok v a obtain sg where sg: "signRFQData cl ?d = Inr sg"
    by (auto simp: createRFQ_def Let_def split: sum.splits)
  from ok v a sg have "withRetry (createRFQ_attempt cl ?i ?d sg) w = (Inr r, w')"
    by (auto simp: createRFQ_def Let_def split: sum.splits)
  then obtain u where u: "createRFQ_attempt cl ?i ?d sg u = (Inr r, w')"
    by (blast dest: withRetry_Inr)
  let ?opts = "\<lparr>w_entityType = RFQ_ENTITY_TYPE, w_entityKey = ?i, w_data = ?d, w_signature = Some sg\<rparr>"
  obtain x s' where wr: "writeEntity (arkivClient cl) (clock u) ?opts (store u) = (x, s')"
    by (cases "writeEntity (arkivClient cl) (clock u) ?opts (store u)")
  from u wr obtain e where e: "x = Inr e" "r = entityToRFQ e" "calls w' = calls u @ [WriteCall ?opts]"
    by (auto simp: createRFQ_attempt_def call_writeEntity_def split: sum.splits)
  show ?thesis
    apply (rule exI[of _ a], rule exI[of _ sg])
    apply (rule exI[of _ u], rule exI[of _ e], rule exI[of _ s'])
    using v a wr e by simp
qed

lemma valid_minFillAmount:
  "validateCreateRFQInput now input = Inr () \<Longrightarrow> in_minFillAmount input = Some m \<Longrightarrow>
   m \<noteq> [] \<and> m \<noteq> ''0''"
  by (auto simp: validateCreateRFQInput_def validateAmount_def split: sum.splits if_splits)

text \<open>
  For every input on which \<open>createRFQ\<close> succeeds (so, every valid input), the record
  it writes has \<open>filledAmount\<close> equal to the input's \<open>minFillAmount\<close> when that is
  provided and \<open>"0"\<close> otherwise, with an empty \<open>fills\<close> list. On a store that echoes
  what it is given, the record returned is the record written.
\<close>

lemma createRFQ_written_filledAmount:
  assumes ok: "createRFQ cl random input (w :: 's world) = (Inr r, w')"
  shows "\<exists>opts. calls w' \<noteq> [] \<and> last (calls w') = WriteCall opts
          \<and> getProp (w_data opts) ''filledAmount''
              = JString (case in_minFillAmount input of None \<Rightarrow> ''0'' | Some m \<Rightarrow> m)
          \<and> getProp (w_data opts) ''fills'' = JArray []
          \<and> getProp (w_data opts) ''minFillAmount'' = optionalString (in_minFillAmount input)
          \<and> (echoes (arkivClient cl) \<longrightarrow> r = w_data opts)"
proof -
  from createRFQ_success[OF ok] obtain a sg and u :: "'s world" and e s' where
    v: "validateCreateRFQInput (nowSeconds w) input = Inr ()" and
    wr: "writeEntity (arkivClient cl) (clock u)
               \<lparr>w_entityType = RFQ_ENTITY_TYPE,
                w_entityKey = generateRFQId a (nowSeconds w) random,
                w_data = rfqData (generateRFQId a (nowSeconds w) random) a (nowSeconds w) input,
                w_signature = Some sg\<rparr> (store u)
             = (Inr e, s')" and r: "r = entityToRFQ e" and
    c: "calls w' = calls u @ [WriteCall \<lparr>w_entityType = RFQ_ENTITY_TYPE,
                w_entityKey = generateRFQId a (nowSeconds w) random,
                w_data = rfqData (generateRFQId a (nowSeconds w) random) a (nowSeconds w) input,
                w_signature = Some sg\<rparr>]"
    by blast
  let ?opts = "\<lparr>w_entityType = RFQ_ENTITY_TYPE,
                w_entityKey = generateRFQId a (nowSeconds w) random,
                w_data = rfqData (generateRFQId a (nowSeconds w) random) a (nowSeconds w) input,
                w_signature = Some sg\<rparr>"
  have e: "echoes (arkivClient cl) \<Longrightarrow> r = w_data ?opts"
    using echoesD[OF _ wr] r by (simp add: entityToRFQ_shape keys_rfqData)
  show ?thesis
    apply (rule exI[of _ ?opts])
    using c e valid_minFillAmount[OF v]
    by (auto simp: rfqData_def orElse_def split: option.splits)
qed

lemma createRFQ_mock:
  assumes v: "validateCreateRFQInput (t div 1000) input = Inr ()"
  shows "\<exists>w'. createRFQ \<lparr>arkivClient = ArkivClientMock, signer = Some (MockSigner a)\<rparr> random input
           \<lparr>clock = t, calls = cs, store = (st :: 'h MockState)\<rparr> =
         (Inr (rfqData (generateRFQId a (t div 1000) random) a (t div 1000) input), w')"
proof -
  let ?cl = "\<lparr>arkivClient = ArkivClientMock, signer = Some (MockSigner a)\<rparr>
               :: 'h MockState ArkivRFQClient"
  let ?w = "\<lparr>clock = t, calls = cs, store = st\<rparr>"
  let ?i = "generateRFQId a (t div 1000) random"
  let ?d = "rfqData ?i a (t div 1000) input"
  obtain w' where at: "createRFQ_attempt ?cl ?i ?d mockSignature ?w = (Inr ?d, w')"
    by (simp add: createRFQ_attempt_def call_writeEntity_def ArkivClientMock_def
        mock_writeEntity_def Let_def entityToRFQ_shape keys_rfqData)
  have "createRFQ ?cl random input ?w = (Inr ?d, w')"
    by (simp add: createRFQ_def v getSignerAddress_def signRFQData_def nowSeconds_def Let_def
        withRetry_first_success[where fn = "createRFQ_attempt ?cl ?i ?d mockSignature", OF at])
  then show ?thesis by blast
qed

lemma validate_testInputMin: "validateCreateRFQInput 1000 testInputMin = Inr ()"
  by (simp add: validateCreateRFQInput_def validateTokenInfo_def validateAddress_def
      isHexDigit_def tokenA_def tokenB_def testInput_def testInputMin_def validateAmount_def
      isDigit_def validateExpiration_def)

lemma validate_testInputZero: "validateCreateRFQInput 1000 testInputZero = Inr ()"
  by (simp add: validateCreateRFQInput_def validateTokenInfo_def validateAddress_def
      isHexDigit_def tokenA_def tokenB_def testInput_def testInputZero_def validateAmount_def
      isDigit_def validateExpiration_def)

lemma createRFQ_testInputMin:
  "\<exists>w'. createRFQ testClient ''k3j2h1'' testInputMin testWorld
          = (Inr (rfqData testId testAddress 1000 testInputMin), w')"
proof -
  have v: "validateCreateRFQInput (1000000 div 1000) testInputMin = Inr ()"
    by (simp add: validate_testInputMin)
  from createRFQ_mock[OF v, of testAddress "''k3j2h1''" "[]" "emptyMock []"]
  show ?thesis by (auto simp: testClient_def testWorld_def testId_eq)
qed

lemma createRFQ_min_filledAmount:
  "\<exists>r w'. createRFQ testClient ''k3j2h1'' testInputMin testWorld = (Inr r, w')
      \<and> getProp r ''filledAmount'' = JString ''500'' \<and> getProp r ''fills'' = JArray []"
  using createRFQ_testInputMin by (auto simp: rfqData_def testInputMin_def orElse_def)

text \<open>
  C10. The first half holds of the code (lemma \<open>createRFQ_written_filledAmount\<close>); the
  consequence drawn from it does not. The minimum fill amount \<open>00\<close> passes validation,
  and the record created with it is written and returned with \<open>filledAmount = "00"\<close>,
  which denotes zero, beside an empty \<open>fills\<close> list.
\<close>

theorem createRFQ_zero_filledAmount:
  "validateCreateRFQInput (nowSeconds testWorld) testInputZero = Inr ()
   \<and> in_minFillAmount testInputZero = Some ''00''
   \<and> amountValue ''00'' = 0
   \<and> (\<exists>r w'. createRFQ testClient ''k3j2h1'' testInputZero testWorld = (Inr r, w')
          \<and> getProp r ''filledAmount'' = JString ''00''
          \<and> getProp r ''minFillAmount'' = JString ''00''
          \<and> getProp r ''fills'' = JArray []
          \<and> (\<exists>opts. last (calls w') = WriteCall opts \<and> w_data opts = r))"
proof -
  have v: "validateCreateRFQInput (1000000 div 1000) testInputZero = Inr ()"
    by (simp add: validate_testInputZero)
  from createRFQ_mock[OF v, of testAddress "''k3j2h1''" "[]" "emptyMock []"]
  obtain w' where c: "createRFQ testClient ''k3j2h1'' testInputZero testWorld =
      (Inr (rfqData testId testAddress 1000 testInputZero), w')"
    by (auto simp: testClient_def testWorld_def testId_eq)
  have e: "echoes (arkivClient testClient)" by (simp add: testClient_def echoes_mock)
  from createRFQ_written_filledAmount[OF c] e obtain opts where
    o: "last (calls w') = WriteCall opts" "rfqData testId testAddress 1000 testInputZero = w_data opts"
    by blast
  have m: "in_minFillAmount testInputZero = Some ''00''"
    by (simp add: testInputZero_def)
  have z: "amountValue ''00'' = 0"
    by (simp add: amountValue_def digitValue_def)
  have p: "getProp (rfqData testId testAddress 1000 testInputZero) ''filledAmount'' = JString ''00''"
    "getProp (rfqData testId testAddress 1000 testInputZero) ''minFillAmount'' = JString ''00''"
    "getProp (rfqData testId testAddress 1000 testInputZero) ''fills'' = JArray []"
    by (simp_all add: rfqData_def m orElse_def optionalString_def)
  show ?thesis
    using c o p m z by (simp add: nowSeconds_testWorld validate_testInputZero)
qed

section \<open>Creator filter and letter case\<close>

lemma lowerChar_not_upper: "\<not> isUpper (lowerChar c)"
  by (auto simp: lowerChar_def isUpper_def)

lemma noUpperCase_toLowerCase: "noUpperCase (toLowerCase s)"
  by (induction s) (simp_all add: noUpperCase_def toLowerCase_def lowerChar_not_upper)

lemma toLowerCase_fixed: "noUpperCase s \<Longrightarrow> toLowerCase s = s"
  by (induction s) (simp_all add: noUpperCase_def toLowerCase_def lowerChar_def)

lemma toLowerCase_idem: "toLowerCase (toLowerCase s) = toLowerCase s"
  by (simp add: toLowerCase_fixed noUpperCase_toLowerCase)


lemma getNestedValue_creator: "getNestedValue d ''creator'' = getProp d ''creator''"
  by (simp add: getNestedValue_def)

lemma strictEquals_FString: "strictEquals v (FString x) \<longleftrightarrow> v = JString x"
  by (cases v) auto




lemma toLowerCase_mixedAddress:
  "toLowerCase mixedAddress = ''0xabcdef7890123456789012345678901234567890''"
  by code_simp




text \<open>
  End to end on the mock: the signer with the checksummed address creates an RFQ, then
  queries by its own address; the query finds nothing.
\<close>

lemma creator_query_misses_own_record:
  "\<exists>w1. createRFQ mixedClient ''k3j2h1'' testInput testWorld
          = (Inr (rfqData (generateRFQId mixedAddress 1000 ''k3j2h1'') mixedAddress 1000 testInput), w1)
       \<and> fst (queryRFQs mixedClient (Some (creatorFilter mixedAddress)) None None w1)
          = Inr \<lparr>rfqs = [], qr_total = 0, hasMore = False, qr_nextCursor = None\<rparr>"
proof -
  let ?i = "generateRFQId mixedAddress 1000 ''k3j2h1''"
  let ?d = "rfqData ?i mixedAddress 1000 testInput"
  let ?e = "\<lparr>entityKey = ?i, data = ?d, timestamp = 1000000\<rparr>"
  let ?w1 = "\<lparr>clock = 1000000, calls = [WriteCall (writeOptions ?i ?d mockSignature)],
             store = \<lparr>m_entities = [(''RFQ:'' @ ?i, ?e)], m_watchers = [],
                      m_app = ([] :: Event list)\<rparr>\<rparr>"
  have at: "createRFQ_attempt mixedClient ?i ?d mockSignature testWorld = (Inr ?d, ?w1)"
    by (simp add: createRFQ_attempt_def call_writeEntity_def mixedClient_def ArkivClientMock_def
        mock_writeEntity_def testWorld_def emptyMock_def RFQ_ENTITY_TYPE_def Let_def
        entityToRFQ_shape keys_rfqData)
  have sa: "getSignerAddress mixedClient = Inr mixedAddress"
    and sg: "\<And>d. signRFQData mixedClient d = Inr mockSignature"
    by (simp_all add: getSignerAddress_def signRFQData_def mixedClient_def)
  have c: "createRFQ mixedClient ''k3j2h1'' testInput testWorld = (Inr ?d, ?w1)"
    by (simp add: createRFQ_def nowSeconds_testWorld validate_testInput sa sg Let_def
        withRetry_first_success[where fn = "createRFQ_attempt mixedClient ?i ?d mockSignature", OF at])
  have ne: "mixedAddress \<noteq> toLowerCase mixedAddress"
    unfolding toLowerCase_mixedAddress by (simp add: mixedAddress_def)
  have nonempty: "mixedAddress \<noteq> []" by (simp add: mixedAddress_def)
  have nm: "\<not> matchesFilters ?d (buildArkivFilters (Some (creatorFilter mixedAddress)))"
    using ne nonempty by (simp add: buildArkivFilters_def creatorFilter_def
        getNestedValue_creator strictEquals_FString rfqData_def)
  obtain w2 where q: "queryRFQs_attempt mixedClient (Some (creatorFilter mixedAddress)) None None ?w1
      = (Inr \<lparr>rfqs = [], qr_total = 0, hasMore = False, qr_nextCursor = None\<rparr>, w2)"
    using nm
    by (simp add: queryRFQs_attempt_def call_queryEntities_def mixedClient_def ArkivClientMock_def
        mock_queryEntities_def Let_def matchesFiltersOpt_def RFQ_ENTITY_TYPE_def
        buildArkivSort_def sortEntities_def DEFAULT_PAGE_LIMIT_def del: matchesFilters.simps)
  have "fst (queryRFQs mixedClient (Some (creatorFilter mixedAddress)) None None ?w1)
          = Inr \<lparr>rfqs = [], qr_total = 0, hasMore = False, qr_nextCursor = None\<rparr>"
    unfolding queryRFQs_def
    using withRetry_first_success[where
          fn = "queryRFQs_attempt mixedClient (Some (creatorFilter mixedAddress)) None None", OF q]
    by simp
  with c show ?thesis by blast
qed


section \<open>Change feed\<close>

lemma notifyUpdated_cancelled:
  "onUpdated options = Some u \<Longrightarrow> onCancelled options = Some c \<Longrightarrow>
   getProp (data entity) ''status'' = JString ''CANCELLED'' \<Longrightarrow>
   notifyUpdated (watchOptions options) entity h = c (entityToRFQ entity) h"
  by (simp add: notifyUpdated_def watchOptions_def updatedCallback_def getProp_entityToRFQ
      rfqKeys_def)

lemma notifyUpdated_cancelled_fallthrough:
  "onUpdated options = Some u \<Longrightarrow> onCancelled options = None \<Longrightarrow>
   getProp (data entity) ''status'' = JString ''CANCELLED'' \<Longrightarrow>
   notifyUpdated (watchOptions options) entity h = u (entityToRFQ entity) h"
  by (simp add: notifyUpdated_def watchOptions_def updatedCallback_def getProp_entityToRFQ
      rfqKeys_def)

lemma entityToRFQ_cancelledEntity:
  "entityToRFQ \<lparr>entityKey = k, data = setProp ''status'' (JString ''CANCELLED'') testRFQ,
                timestamp = t\<rparr> = setProp ''status'' (JString ''CANCELLED'') testRFQ"
  by (simp add: entityToRFQ_shape keys_cancelled)

lemma notifyUpdated_without_onUpdated:
  "onUpdated options = None \<Longrightarrow> notifyUpdated (watchOptions options) entity h = h"
  by (simp add: notifyUpdated_def watchOptions_def updatedCallback_def)

text \<open>
  C2. The claim holds of a subscription that also registers \<open>onUpdated\<close>
  (\<open>notifyUpdated_cancelled\<close>, \<open>notifyUpdated_cancelled_fallthrough\<close>), but not of every
  subscription with \<open>onCancelled\<close>: \<open>watchRFQs\<close> hands the store an \<open>onUpdated\<close> callback
  only if \<open>options.onUpdated\<close> is set, so with \<open>onCancelled\<close> alone the store has nothing
  to call and the update notification of a cancelled record reaches no handler. The
  same notification, with \<open>onUpdated\<close> registered as well, fires \<open>onCancelled\<close>.
\<close>

theorem onCancelled_alone_never_fires:
  "getProp (data cancelledEntity) ''status'' = JString ''CANCELLED''
   \<and> notifyUpdated (watchOptions onlyCancelled) cancelledEntity [] = []
   \<and> m_app (simulateEntityUpdate cancelledEntity ''RFQ''
              (snd (watchRFQs mock_watchEntities onlyCancelled (emptyMock [])))) = []
   \<and> notifyUpdated (watchOptions cancelledAndUpdated) cancelledEntity []
       = [EvCancelled (setProp ''status'' (JString ''CANCELLED'') testRFQ)]
   \<and> m_app (simulateEntityUpdate cancelledEntity ''RFQ''
              (snd (watchRFQs mock_watchEntities cancelledAndUpdated (emptyMock []))))
       = [EvCancelled (setProp ''status'' (JString ''CANCELLED'') testRFQ)]"
  by (simp add: cancelledEntity_def onlyCancelled_def cancelledAndUpdated_def notifyUpdated_def
      watchOptions_def updatedCallback_def createdCallback_def record_ev_def
      simulateEntityUpdate_def watchRFQs_def mock_watchEntities_def emptyMock_def
      matchesFiltersOpt_def buildArkivFilters_def RFQ_ENTITY_TYPE_def
      entityToRFQ_cancelledEntity cancelled_props)

section \<open>Store failures inside the lifecycle operations\<close>

text \<open>
  If every attempt fails with an error the classifier lets through, logging one call,
  the loop runs to the last attempt.
\<close>

lemma withRetry_loop_all_fail:
  assumes step: "\<And>u. \<exists>e u'. fn u = (Inl (wrap e), u') \<and> calls u' = calls u @ [c]"
    and nr: "\<And>e. \<not> isNonRetryableError (wrap e)"
  shows "attempt \<le> maxRetries cfg \<Longrightarrow>
     \<exists>e w'. withRetry_loop fn cfg attempt delay lastError w =
        (Inl (ArkivNetworkError
           (''Operation failed after '' @ numberToString (maxRetries cfg + 1) @ '' attempts'')
           (Some (wrap e))), w')
      \<and> calls w' = calls w @ replicate (maxRetries cfg + 1 - attempt) c"
proof (induction "maxRetries cfg - attempt" arbitrary: attempt delay lastError w)
  case 0
  then have eq: "attempt = maxRetries cfg" by simp
  from step[of w] obtain e u' where f: "fn w = (Inl (wrap e), u')" "calls u' = calls w @ [c]"
    by blast
  have "withRetry_loop fn cfg attempt delay lastError w = exhausted cfg (Some (wrap e)) u'"
    using f(1) eq by (simp add: withRetry_loop_abort)
  then show ?case using f(2) eq by (auto simp: exhausted_def throw_def)
next
  case (Suc k)
  then have lt: "attempt < maxRetries cfg" by simp
  from step[of w] obtain e u' where f: "fn w = (Inl (wrap e), u')" "calls u' = calls w @ [c]"
    by blast
  let ?d = "min (delay * backoffMultiplier cfg) (maxDelay cfg)"
  have un: "withRetry_loop fn cfg attempt delay lastError w =
        withRetry_loop fn cfg (Suc attempt) ?d (Some (wrap e)) (sleep delay u')"
    using f(1) lt nr by (simp add: withRetry_loop_retry)
  have k: "k = maxRetries cfg - Suc attempt" using Suc.hyps(2) by simp
  from Suc.hyps(1)[OF k, of ?d "Some (wrap e)" "sleep delay u'"] lt
  obtain e' w' where r: "withRetry_loop fn cfg (Suc attempt) ?d (Some (wrap e)) (sleep delay u') =
        (Inl (ArkivNetworkError
           (''Operation failed after '' @ numberToString (maxRetries cfg + 1) @ '' attempts'')
           (Some (wrap e'))), w')"
      "calls w' = calls (sleep delay u') @ replicate (maxRetries cfg + 1 - Suc attempt) c"
    by auto
  have "maxRetries cfg + 1 - attempt = Suc (maxRetries cfg + 1 - Suc attempt)" using lt by simp
  then have "calls w' = calls w @ replicate (maxRetries cfg + 1 - attempt) c"
    using r(2) f(2) by (simp add: replicate_append_same)
  with un r(1) show ?case by auto
qed

lemma numberToString_4: "numberToString 4 = ''4''"
  by code_simp

lemma withRetry_all_fail:
  assumes step: "\<And>u. \<exists>e u'. fn u = (Inl (wrap e), u') \<and> calls u' = calls u @ [c]"
    and nr: "\<And>e. \<not> isNonRetryableError (wrap e)"
  shows "\<exists>e w'. withRetry fn w =
        (Inl (ArkivNetworkError ''Operation failed after 4 attempts'' (Some (wrap e))), w')
      \<and> calls w' = calls w @ [c, c, c, c]"
proof -
  have four: "replicate 4 c = [c, c, c, c]"
    by (simp add: numeral_eq_Suc)
  have m: "maxRetries DEFAULT_RETRY_CONFIG + 1 = 4" by (simp add: DEFAULT_RETRY_CONFIG_def)
  from withRetry_loop_all_fail[where fn = fn and wrap = wrap and c = c
        and cfg = DEFAULT_RETRY_CONFIG and attempt = 0, OF step nr,
        of "initialDelay DEFAULT_RETRY_CONFIG" None w]
  show ?thesis
    unfolding withRetry_def withRetryWith_def m by (simp add: numberToString_4 four)
qed

text \<open>The five wrapped errors pass the classifier, whatever they wrap.\<close>

lemma lower_create: "toLowerCase ''Network error: Failed to create RFQ'' = ''network error: failed to create rfq''"
  by code_simp
lemma lower_update: "toLowerCase ''Network error: Failed to update RFQ'' = ''network error: failed to update rfq''"
  by code_simp
lemma lower_delete: "toLowerCase ''Network error: Failed to delete RFQ'' = ''network error: failed to delete rfq''"
  by code_simp
lemma lower_get: "toLowerCase ''Network error: Failed to get RFQ'' = ''network error: failed to get rfq''"
  by code_simp
lemma lower_query: "toLowerCase ''Network error: Failed to query RFQs'' = ''network error: failed to query rfqs''"
  by code_simp

lemma wrapped_retryable:
  "\<not> isNonRetryableError (ArkivNetworkError ''Failed to create RFQ'' orig)"
  "\<not> isNonRetryableError (ArkivNetworkError ''Failed to update RFQ'' orig)"
  "\<not> isNonRetryableError (ArkivNetworkError ''Failed to delete RFQ'' orig)"
  "\<not> isNonRetryableError (ArkivNetworkError ''Failed to get RFQ'' orig)"
  "\<not> isNonRetryableError (ArkivNetworkError ''Failed to query RFQs'' orig)"
  unfolding ArkivNetworkError_def isNonRetryableError.simps Let_def
  by (simp_all add: lower_create[simplified] lower_update[simplified] lower_delete[simplified]
      lower_get[simplified] lower_query[simplified])


lemma retriedToExhaustionI:
  assumes step: "\<And>u. \<exists>e u'. fn u = (Inl (ArkivNetworkError msg (Some e)), u') \<and> calls u' = calls u @ [c]"
    and nr: "\<And>orig. \<not> isNonRetryableError (ArkivNetworkError msg orig)"
  shows "retriedToExhaustion msg c (withRetry fn w) w"
  unfolding retriedToExhaustion_def
  using withRetry_all_fail[where fn = fn and wrap = "\<lambda>e. ArkivNetworkError msg (Some e)" and c = c
      and w = w, OF step nr] nr
  by auto

lemma isl_fstD: "isl (fst p) \<Longrightarrow> \<exists>e s. p = (Inl e, s)"
  by (cases p) (auto simp: isl_def)

lemma getRFQ_exhaustion:
  assumes v: "validateRFQId i = Inr ()"
    and rej: "\<forall>now s. isl (fst (getEntity (arkivClient cl) now RFQ_ENTITY_TYPE i s))"
  shows "retriedToExhaustion ''Failed to get RFQ'' (GetCall RFQ_ENTITY_TYPE i) (getRFQ cl i w) w"
proof -
  have "retriedToExhaustion ''Failed to get RFQ'' (GetCall RFQ_ENTITY_TYPE i)
          (withRetry (getRFQ_attempt cl i) w) w"
  proof (rule retriedToExhaustionI)
    fix u :: "'a world"
    from rej isl_fstD obtain e s where
      "getEntity (arkivClient cl) (clock u) RFQ_ENTITY_TYPE i (store u) = (Inl e, s)" by blast
    then show "\<exists>e u'. getRFQ_attempt cl i u = (Inl (ArkivNetworkError ''Failed to get RFQ'' (Some e)), u')
                \<and> calls u' = calls u @ [GetCall RFQ_ENTITY_TYPE i]"
      by (auto simp: getRFQ_attempt_def call_getEntity_def)
  qed (rule wrapped_retryable)
  then show ?thesis by (simp add: getRFQ_def v)
qed

lemma queryRFQs_exhaustion:
  assumes rej: "\<forall>now s. isl (fst (queryEntities (arkivClient cl) now
                                   (queryOptions filters sort' pagination) s))"
  shows "retriedToExhaustion ''Failed to query RFQs''
           (QueryCall (queryOptions filters sort' pagination))
           (queryRFQs cl filters sort' pagination w) w"
  unfolding queryRFQs_def
proof (rule retriedToExhaustionI)
  fix u :: "'a world"
  from rej isl_fstD obtain e s where
    "queryEntities (arkivClient cl) (clock u) (queryOptions filters sort' pagination) (store u)
       = (Inl e, s)" by blast
  then show "\<exists>e u'. queryRFQs_attempt cl filters sort' pagination u
                  = (Inl (ArkivNetworkError ''Failed to query RFQs'' (Some e)), u')
                \<and> calls u' = calls u @ [QueryCall (queryOptions filters sort' pagination)]"
    by (auto simp: queryRFQs_attempt_def call_queryEntities_def Let_def)
qed (rule wrapped_retryable)

lemma write_exhaustion:
  assumes rej: "\<forall>now s. isl (fst (writeEntity (arkivClient cl) now (writeOptions i d sg) s))"
  shows "retriedToExhaustion ''Failed to create RFQ'' (WriteCall (writeOptions i d sg))
           (withRetry (createRFQ_attempt cl i d sg) w) w"
    and "retriedToExhaustion ''Failed to update RFQ'' (WriteCall (writeOptions i d sg))
           (withRetry (updateRFQ_attempt cl i d sg) w) w"
proof -
  have r: "\<And>u :: 'a world. \<exists>e s. writeEntity (arkivClient cl) (clock u) (writeOptions i d sg) (store u)
       = (Inl e, s)"
    using rej isl_fstD by blast
  show "retriedToExhaustion ''Failed to create RFQ'' (WriteCall (writeOptions i d sg))
           (withRetry (createRFQ_attempt cl i d sg) w) w"
  proof (rule retriedToExhaustionI)
    fix u :: "'a world"
    from r[of u] show "\<exists>e u'. createRFQ_attempt cl i d sg u
                  = (Inl (ArkivNetworkError ''Failed to create RFQ'' (Some e)), u')
                \<and> calls u' = calls u @ [WriteCall (writeOptions i d sg)]"
      by (auto simp: createRFQ_attempt_def call_writeEntity_def)
  qed (rule wrapped_retryable)
  show "retriedToExhaustion ''Failed to update RFQ'' (WriteCall (writeOptions i d sg))
           (withRetry (updateRFQ_attempt cl i d sg) w) w"
  proof (rule retriedToExhaustionI)
    fix u :: "'a world"
    from r[of u] show "\<exists>e u'. updateRFQ_attempt cl i d sg u
                  = (Inl (ArkivNetworkError ''Failed to update RFQ'' (Some e)), u')
                \<and> calls u' = calls u @ [WriteCall (writeOptions i d sg)]"
      by (auto simp: updateRFQ_attempt_def call_writeEntity_def)
  qed (rule wrapped_retryable)
qed

lemma delete_exhaustion:
  assumes rej: "\<forall>now s. isl (fst (deleteEntity (arkivClient cl) now RFQ_ENTITY_TYPE i s))"
  shows "retriedToExhaustion ''Failed to delete RFQ'' (DeleteCall RFQ_ENTITY_TYPE i)
           (withRetry (deleteRFQ_attempt cl i) w) w"
proof (rule retriedToExhaustionI)
  fix u :: "'a world"
  from rej isl_fstD obtain e s where
    "deleteEntity (arkivClient cl) (clock u) RFQ_ENTITY_TYPE i (store u) = (Inl e, s)" by blast
  then show "\<exists>e u'. deleteRFQ_attempt cl i u
                  = (Inl (ArkivNetworkError ''Failed to delete RFQ'' (Some e)), u')
                \<and> calls u' = calls u @ [DeleteCall RFQ_ENTITY_TYPE i]"
    by (auto simp: deleteRFQ_attempt_def call_deleteEntity_def)
qed (rule wrapped_retryable)

lemma ArkivNetworkError_fields:
  "name_of (ArkivNetworkError m orig) = ''ArkivNetworkError''"
  "message_of (ArkivNetworkError m orig) = ''Network error: '' @ m"
  "originalError (ArkivNetworkError m orig) = orig"
  by (simp_all add: ArkivNetworkError_def)

text \<open>
  C8. In each lifecycle operation the store call sits inside a \<open>try\<close> whose \<open>catch\<close>
  rethrows \<open>ArkivNetworkError("Failed to ...", error)\<close>: what the retry classifier sees
  is that error, named \<open>ArkivNetworkError\<close>, with the message \<open>Network error: Failed to
  ...\<close> that contains nothing of the cause's message, and it lets it through whatever the
  cause was (a cause whose message contains 400 or 404 included). So if the store call
  of an operation rejects every time, the operation (once past its local checks) makes
  the call four times and fails with the executor's error around the last wrapped
  failure. Read, query, create, update and delete in turn.
\<close>

theorem store_failures_retried:
  "name_of (ArkivNetworkError m orig) = ''ArkivNetworkError''
 \<and> message_of (ArkivNetworkError m orig) = ''Network error: '' @ m
 \<and> (validateRFQId i = Inr ()
    \<and> (\<forall>now s. isl (fst (getEntity (arkivClient cl) now RFQ_ENTITY_TYPE i s)))
    \<longrightarrow> retriedToExhaustion ''Failed to get RFQ'' (GetCall RFQ_ENTITY_TYPE i) (getRFQ cl i w) w)
 \<and> ((\<forall>now s. isl (fst (queryEntities (arkivClient cl) now
                         (queryOptions filters sort' pagination) s)))
    \<longrightarrow> retriedToExhaustion ''Failed to query RFQs''
           (QueryCall (queryOptions filters sort' pagination))
           (queryRFQs cl filters sort' pagination w) w)
 \<and> (validateCreateRFQInput (nowSeconds w) input = Inr ()
    \<and> getSignerAddress cl = Inr a
    \<and> ci = generateRFQId a (nowSeconds w) random
    \<and> cd = rfqData ci a (nowSeconds w) input
    \<and> signRFQData cl cd = Inr csg
    \<and> (\<forall>now s. isl (fst (writeEntity (arkivClient cl) now (writeOptions ci cd csg) s)))
    \<longrightarrow> retriedToExhaustion ''Failed to create RFQ'' (WriteCall (writeOptions ci cd csg))
           (createRFQ cl random input w) w)
 \<and> (fst (getRFQ cl i w) = Inr (Some ex)
    \<and> getSignerAddress cl = Inr a
    \<and> lowerCaseOf (getProp ex ''creator'') = Inr (toLowerCase a)
    \<and> getProp ex ''status'' = JString ''OPEN''
    \<and> ud = updatedData ex upd (nowSeconds (snd (getRFQ cl i w)))
    \<and> signRFQData cl ud = Inr usg
    \<and> (\<forall>now s. isl (fst (writeEntity (arkivClient cl) now (writeOptions i ud usg) s)))
    \<longrightarrow> retriedToExhaustion ''Failed to update RFQ'' (WriteCall (writeOptions i ud usg))
           (updateRFQ cl i upd w) (snd (getRFQ cl i w)))
 \<and> (fst (getRFQ cl i w) = Inr (Some ex)
    \<and> getSignerAddress cl = Inr a
    \<and> lowerCaseOf (getProp ex ''creator'') = Inr (toLowerCase a)
    \<and> (\<forall>now s. isl (fst (deleteEntity (arkivClient cl) now RFQ_ENTITY_TYPE i s)))
    \<longrightarrow> retriedToExhaustion ''Failed to delete RFQ'' (DeleteCall RFQ_ENTITY_TYPE i)
           (deleteRFQ cl i w) (snd (getRFQ cl i w)))"
proof (intro conjI impI)
  show "name_of (ArkivNetworkError m orig) = ''ArkivNetworkError''"
    and "message_of (ArkivNetworkError m orig) = ''Network error: '' @ m"
    by (simp_all add: ArkivNetworkError_fields)
next
  assume "validateRFQId i = Inr ()
    \<and> (\<forall>now s. isl (fst (getEntity (arkivClient cl) now RFQ_ENTITY_TYPE i s)))"
  then show "retriedToExhaustion ''Failed to get RFQ'' (GetCall RFQ_ENTITY_TYPE i) (getRFQ cl i w) w"
    by (simp add: getRFQ_exhaustion)
next
  assume "\<forall>now s. isl (fst (queryEntities (arkivClient cl) now
                         (queryOptions filters sort' pagination) s))"
  then show "retriedToExhaustion ''Failed to query RFQs''
           (QueryCall (queryOptions filters sort' pagination))
           (queryRFQs cl filters sort' pagination w) w"
    by (rule queryRFQs_exhaustion)
next
  assume h: "validateCreateRFQInput (nowSeconds w) input = Inr ()
    \<and> getSignerAddress cl = Inr a
    \<and> ci = generateRFQId a (nowSeconds w) random
    \<and> cd = rfqData ci a (nowSeconds w) input
    \<and> signRFQData cl cd = Inr csg
    \<and> (\<forall>now s. isl (fst (writeEntity (arkivClient cl) now (writeOptions ci cd csg) s)))"
  then have rej: "\<forall>now s. isl (fst (writeEntity (arkivClient cl) now (writeOptions ci cd csg) s))"
    by blast
  from h have eq: "createRFQ cl random input w = withRetry (createRFQ_attempt cl ci cd csg) w"
    by (auto simp: createRFQ_def Let_def)
  show "retriedToExhaustion ''Failed to create RFQ'' (WriteCall (writeOptions ci cd csg))
           (createRFQ cl random input w) w"
    unfolding eq by (rule write_exhaustion(1)[OF rej])
next
  assume h: "fst (getRFQ cl i w) = Inr (Some ex)
    \<and> getSignerAddress cl = Inr a
    \<and> lowerCaseOf (getProp ex ''creator'') = Inr (toLowerCase a)
    \<and> getProp ex ''status'' = JString ''OPEN''
    \<and> ud = updatedData ex upd (nowSeconds (snd (getRFQ cl i w)))
    \<and> signRFQData cl ud = Inr usg
    \<and> (\<forall>now s. isl (fst (writeEntity (arkivClient cl) now (writeOptions i ud usg) s)))"
  then have rej: "\<forall>now s. isl (fst (writeEntity (arkivClient cl) now (writeOptions i ud usg) s))"
    by blast
  obtain w1 where g: "getRFQ cl i w = (Inr (Some ex), w1)"
    using h by (cases "getRFQ cl i w") simp
  have v: "validateRFQId i = Inr ()" by (rule getRFQ_valid[OF g])
  have eq: "updateRFQ cl i upd w = withRetry (updateRFQ_attempt cl i ud usg) w1"
    using h g v by (auto simp: updateRFQ_def Let_def)
  have w1: "snd (getRFQ cl i w) = w1" using g by simp
  show "retriedToExhaustion ''Failed to update RFQ'' (WriteCall (writeOptions i ud usg))
           (updateRFQ cl i upd w) (snd (getRFQ cl i w))"
    unfolding eq w1 by (rule write_exhaustion(2)[OF rej])
next
  assume h: "fst (getRFQ cl i w) = Inr (Some ex)
    \<and> getSignerAddress cl = Inr a
    \<and> lowerCaseOf (getProp ex ''creator'') = Inr (toLowerCase a)
    \<and> (\<forall>now s. isl (fst (deleteEntity (arkivClient cl) now RFQ_ENTITY_TYPE i s)))"
  then have rej: "\<forall>now s. isl (fst (deleteEntity (arkivClient cl) now RFQ_ENTITY_TYPE i s))"
    by blast
  obtain w1 where g: "getRFQ cl i w = (Inr (Some ex), w1)"
    using h by (cases "getRFQ cl i w") simp
  have v: "validateRFQId i = Inr ()" by (rule getRFQ_valid[OF g])
  have eq: "deleteRFQ cl i w = withRetry (deleteRFQ_attempt cl i) w1"
    using h g v by (auto simp: deleteRFQ_def)
  have w1: "snd (getRFQ cl i w) = w1" using g by simp
  show "retriedToExhaustion ''Failed to delete RFQ'' (DeleteCall RFQ_ENTITY_TYPE i)
           (deleteRFQ cl i w) (snd (getRFQ cl i w))"
    unfolding eq w1 by (rule delete_exhaustion[OF rej])
qed


lemma raw_4xx_nonretryable: "isNonRetryableError notFound" "isNonRetryableError badRequest"
  by (code_simp+)

lemma getSignerAddress_down: "getSignerAddress downClient = Inr testAddress"
  "getSignerAddress readOnlyTestClient = Inr testAddress"
  by (simp_all add: getSignerAddress_def downClient_def readOnlyTestClient_def)

lemma signRFQData_down: "signRFQData downClient d = Inr mockSignature"
  "signRFQData readOnlyTestClient d = Inr mockSignature"
  by (simp_all add: signRFQData_def downClient_def readOnlyTestClient_def)

lemma getRFQ_readOnly:
  "getRFQ readOnlyTestClient testId downWorld =
     (Inr (Some testRFQ), downWorld\<lparr>calls := [GetCall ''RFQ'' testId]\<rparr>)"
proof -
  have a: "getRFQ_attempt readOnlyTestClient testId downWorld =
     (Inr (Some testRFQ), downWorld\<lparr>calls := [GetCall ''RFQ'' testId]\<rparr>)"
    by (simp add: getRFQ_attempt_def call_getEntity_def readOnlyTestClient_def readOnlyClient_def
        RFQ_ENTITY_TYPE_def downWorld_def)
  show ?thesis
    by (simp add: getRFQ_def validate_testId
        withRetry_first_success[where fn = "getRFQ_attempt readOnlyTestClient testId", OF a])
qed

theorem store_failures_retried_witness:
  "isNonRetryableError notFound \<and> isNonRetryableError badRequest
   \<and> retriedToExhaustion ''Failed to get RFQ'' (GetCall RFQ_ENTITY_TYPE testId)
        (getRFQ downClient testId downWorld) downWorld
   \<and> retriedToExhaustion ''Failed to query RFQs'' (QueryCall (queryOptions None None None))
        (queryRFQs downClient None None None downWorld) downWorld
   \<and> retriedToExhaustion ''Failed to create RFQ''
        (WriteCall (writeOptions testId testRFQ mockSignature))
        (createRFQ downClient ''k3j2h1'' testInput downWorld) downWorld
   \<and> retriedToExhaustion ''Failed to update RFQ''
        (WriteCall (writeOptions testId (setProp ''baseAmount'' (JString ''1500000000000000000'') testRFQ)
                      mockSignature))
        (updateRFQ readOnlyTestClient testId testUpdate downWorld)
        (downWorld\<lparr>calls := [GetCall ''RFQ'' testId]\<rparr>)
   \<and> retriedToExhaustion ''Failed to delete RFQ'' (DeleteCall RFQ_ENTITY_TYPE testId)
        (deleteRFQ readOnlyTestClient testId downWorld)
        (downWorld\<lparr>calls := [GetCall ''RFQ'' testId]\<rparr>)"
proof -
  have n: "nowSeconds downWorld = 1000" by (simp add: nowSeconds_def downWorld_def)
  have d: "updatedData testRFQ testUpdate 1000 = setProp ''baseAmount'' (JString ''1500000000000000000'') testRFQ"
    by (simp add: updatedData_shape[OF keys_testRFQ] testUpdate_def assign_Cons assign_Nil)
       (simp add: testRFQ_def)
  have own: "lowerCaseOf (getProp testRFQ ''creator'') = Inr (toLowerCase testAddress)"
    "getProp testRFQ ''status'' = JString ''OPEN''"
    by (simp_all add: testRFQ_props)
  have down: "\<forall>now s. isl (fst (getEntity (arkivClient downClient) now RFQ_ENTITY_TYPE testId s))"
    "\<forall>now s. isl (fst (queryEntities (arkivClient downClient) now (queryOptions None None None) s))"
    "\<forall>now s. isl (fst (writeEntity (arkivClient downClient) now
                           (writeOptions testId testRFQ mockSignature) s))"
    by (simp_all add: downClient_def rejectingClient_def)
  have ro: "\<forall>now s. isl (fst (writeEntity (arkivClient readOnlyTestClient) now
                           (writeOptions testId (setProp ''baseAmount'' (JString ''1500000000000000000'') testRFQ)
                              mockSignature) s))"
    "\<forall>now s. isl (fst (deleteEntity (arkivClient readOnlyTestClient) now RFQ_ENTITY_TYPE testId s))"
    by (simp_all add: readOnlyTestClient_def readOnlyClient_def)
  note t1 = store_failures_retried[where cl = downClient and i = testId and w = downWorld
      and filters = None and sort' = None and pagination = None and input = testInput
      and random = "''k3j2h1''" and a = testAddress and ci = testId and cd = testRFQ
      and csg = mockSignature]
  note t2 = store_failures_retried[where cl = readOnlyTestClient and i = testId and w = downWorld
      and a = testAddress and ex = testRFQ and upd = testUpdate
      and ud = "setProp ''baseAmount'' (JString ''1500000000000000000'') testRFQ" and usg = mockSignature]
  have g: "retriedToExhaustion ''Failed to get RFQ'' (GetCall RFQ_ENTITY_TYPE testId)
        (getRFQ downClient testId downWorld) downWorld"
    using t1 validate_testId down(1) by blast
  have q: "retriedToExhaustion ''Failed to query RFQs'' (QueryCall (queryOptions None None None))
        (queryRFQs downClient None None None downWorld) downWorld"
    using t1 down(2) by blast
  have ci: "testId = generateRFQId testAddress (nowSeconds downWorld) ''k3j2h1''"
    unfolding n by (simp add: testId_eq)
  have cd: "testRFQ = rfqData testId testAddress (nowSeconds downWorld) testInput"
    unfolding n by (simp add: rfqData_testInput)
  have cv: "validateCreateRFQInput (nowSeconds downWorld) testInput = Inr ()"
    unfolding n by (rule validate_testInput)
  have c: "retriedToExhaustion ''Failed to create RFQ''
        (WriteCall (writeOptions testId testRFQ mockSignature))
        (createRFQ downClient ''k3j2h1'' testInput downWorld) downWorld"
    using t1 cv getSignerAddress_down(1) ci cd signRFQData_down(1) down(3) by blast
  have g1: "fst (getRFQ readOnlyTestClient testId downWorld) = Inr (Some testRFQ)"
    by (simp add: getRFQ_readOnly)
  have g2: "snd (getRFQ readOnlyTestClient testId downWorld)
              = downWorld\<lparr>calls := [GetCall ''RFQ'' testId]\<rparr>"
    by (simp add: getRFQ_readOnly)
  have n2: "nowSeconds (snd (getRFQ readOnlyTestClient testId downWorld)) = 1000"
    unfolding g2 by (simp add: nowSeconds_def downWorld_def)
  have ud: "setProp ''baseAmount'' (JString ''1500000000000000000'') testRFQ
              = updatedData testRFQ testUpdate
                  (nowSeconds (snd (getRFQ readOnlyTestClient testId downWorld)))"
    unfolding n2 by (simp add: d)
  have "retriedToExhaustion ''Failed to update RFQ''
        (WriteCall (writeOptions testId (setProp ''baseAmount'' (JString ''1500000000000000000'') testRFQ)
                      mockSignature))
        (updateRFQ readOnlyTestClient testId testUpdate downWorld)
        (snd (getRFQ readOnlyTestClient testId downWorld))"
    using t2 g1 getSignerAddress_down(2) own ud signRFQData_down(2) ro(1) by blast
  then have u: "retriedToExhaustion ''Failed to update RFQ''
        (WriteCall (writeOptions testId (setProp ''baseAmount'' (JString ''1500000000000000000'') testRFQ)
                      mockSignature))
        (updateRFQ readOnlyTestClient testId testUpdate downWorld)
        (downWorld\<lparr>calls := [GetCall ''RFQ'' testId]\<rparr>)"
    unfolding g2 .
  have "retriedToExhaustion ''Failed to delete RFQ'' (DeleteCall RFQ_ENTITY_TYPE testId)
        (deleteRFQ readOnlyTestClient testId downWorld)
        (snd (getRFQ readOnlyTestClient testId downWorld))"
    using t2 g1 getSignerAddress_down(2) own ro(2) by blast
  then have dl: "retriedToExhaustion ''Failed to delete RFQ'' (DeleteCall RFQ_ENTITY_TYPE testId)
        (deleteRFQ readOnlyTestClient testId downWorld)
        (downWorld\<lparr>calls := [GetCall ''RFQ'' testId]\<rparr>)"
    unfolding g2 .
  show ?thesis using raw_4xx_nonretryable g q c u dl by blast
qed

end
